theory Spec2Isabelle
  imports Main
begin

section \<open>Python values\<close>

text \<open>
  The methods of \<open>Football\<close> are dynamically typed. The model covers the argument values
  None, integers and strings. A string is a list of 8-bit characters, read as the code
  points below 256; among these the decimal digits in the sense of Python's \<open>\d\<close> are
  exactly \<open>0\<close> to \<open>9\<close>.
\<close>

datatype pyval = PNone | PInt int | PStr string

text \<open>Python's truth test, as used by \<open>if season:\<close>, \<open>if matchday:\<close> and the like.\<close>

fun truthy :: "pyval \<Rightarrow> bool" where
  "truthy PNone = False"
| "truthy (PInt n) = (n \<noteq> 0)"
| "truthy (PStr s) = (s \<noteq> [])"

fun str_nat :: "nat \<Rightarrow> string" where
  "str_nat n =
     (if n < 10 then [''0123456789'' ! n]
      else str_nat (n div 10) @ [''0123456789'' ! (n mod 10)])"

declare str_nat.simps [simp del]

text \<open>Python's \<open>str()\<close>, which is also what an f-string applies to a value.\<close>

fun str :: "pyval \<Rightarrow> string" where
  "str PNone = ''None''"
| "str (PInt i) = (if i < 0 then ''-'' @ str_nat (nat (- i)) else str_nat (nat i))"
| "str (PStr s) = s"

section \<open>Regular expressions\<close>

text \<open>
  The three patterns of the source are alternatives of sequences of quantified character
  classes. \<open>rests_seq\<close> lists what can remain of a string after a sequence has matched at
  its start. \<open>re_match\<close> is \<open>pattern.match(s)\<close> read as a truth value: a match of the
  pattern at the start of the string, with nothing required of the rest.
\<close>

datatype cls = Digit | Lit char | Range char char

type_synonym item = "cls \<times> nat \<times> nat option"
type_synonym regex = "item list list"

fun in_cls :: "cls \<Rightarrow> char \<Rightarrow> bool" where
  "in_cls Digit c = (c \<in> set ''0123456789'')"
| "in_cls (Lit a) c = (c = a)"
| "in_cls (Range a b) c = ((of_char a :: nat) \<le> of_char c \<and> (of_char c :: nat) \<le> of_char b)"

fun rests_item :: "item \<Rightarrow> string \<Rightarrow> string list" where
  "rests_item (k, lo, hi) s =
     (let avail = length (takeWhile (in_cls k) s);
          most = (case hi of None \<Rightarrow> avail | Some h \<Rightarrow> min h avail)
      in map (\<lambda>j. drop j s) [lo ..< Suc most])"

fun rests_seq :: "item list \<Rightarrow> string \<Rightarrow> string list" where
  "rests_seq [] s = [s]"
| "rests_seq (i # is) s = concat (map (rests_seq is) (rests_item i s))"

definition re_match :: "regex \<Rightarrow> string \<Rightarrow> bool" where
  "re_match r s = list_ex (\<lambda>alt. rests_seq alt s \<noteq> []) r"

definition once :: "cls \<Rightarrow> item" where
  "once k = (k, 1, Some 1)"

text \<open>\<open>\d\d\d\d\<close>\<close>

definition season_pattern :: regex where
  "season_pattern = [[once Digit, once Digit, once Digit, once Digit]]"

text \<open>\<open>\d+\<close>\<close>

definition matchday_pattern :: regex where
  "matchday_pattern = [[(Digit, 1, None)]]"

text \<open>\<open>p|n[1-9]{1,2}\<close>\<close>

definition time_frame_pattern :: regex where
  "time_frame_pattern =
     [[once (Lit CHR ''p'')],
      [once (Lit CHR ''n''), (Range CHR ''1'' CHR ''9'', 1, Some 2)]]"

section \<open>The league code table\<close>

definition LEAGUE_CODE :: "(string \<times> int) list" where
  "LEAGUE_CODE =
     [(''BSA'', 444), (''PL'', 445), (''ELC'', 446), (''EL1'', 447), (''EL2'', 448),
      (''DED'', 449), (''FL1'', 450), (''FL2'', 451), (''BL1'', 452), (''BL2'', 453),
      (''PD'', 455), (''SA'', 456), (''PPL'', 457), (''DFB'', 458), (''SB'', 459),
      (''CL'', 464), (''AAL'', 466)]"

section \<open>urllib.parse\<close>

text \<open>
  The functions of CPython's \<open>urllib.parse\<close> that \<open>_generate_url\<close> calls, on strings of
  8-bit characters.
\<close>

subsection \<open>urlencode\<close>

definition ALWAYS_SAFE :: string where
  "ALWAYS_SAFE =
     ''ABCDEFGHIJKLMNOPQRSTUVWXYZabcdefghijklmnopqrstuvwxyz0123456789_.-~''"

text \<open>The UTF-8 bytes of a code point below 256.\<close>

definition utf8 :: "char \<Rightarrow> char list" where
  "utf8 c =
     (let n = of_char c :: nat
      in if n < 128 then [c] else [char_of (192 + n div 64), char_of (128 + n mod 64)])"

text \<open>\<open>'%{:02X}'.format(b)\<close>\<close>

definition percent_hex :: "char \<Rightarrow> string" where
  "percent_hex b =
     (let n = of_char b :: nat
      in [CHR ''%'', ''0123456789ABCDEF'' ! (n div 16), ''0123456789ABCDEF'' ! (n mod 16)])"

definition quoter :: "string \<Rightarrow> char \<Rightarrow> string" where
  "quoter safe b = (if b \<in> set ALWAYS_SAFE \<union> set safe then [b] else percent_hex b)"

definition quote :: "string \<Rightarrow> string \<Rightarrow> string" where
  "quote string safe = concat (map (quoter safe) (concat (map utf8 string)))"

definition quote_plus :: "string \<Rightarrow> string" where
  "quote_plus string =
     (if CHR '' '' \<notin> set string then quote string ''''
      else map (\<lambda>c. if c = CHR '' '' then CHR ''+'' else c) (quote string '' ''))"

fun join :: "string \<Rightarrow> string list \<Rightarrow> string" where
  "join sep [] = []"
| "join sep [x] = x"
| "join sep (x # y # ys) = x @ sep @ join sep (y # ys)"

definition urlencode :: "(string \<times> string) list \<Rightarrow> string" where
  "urlencode query = join ''&'' (map (\<lambda>(k, v). quote_plus k @ ''='' @ quote_plus v) query)"

subsection \<open>urlsplit and urlparse\<close>

definition scheme_chars :: string where
  "scheme_chars = ''abcdefghijklmnopqrstuvwxyzABCDEFGHIJKLMNOPQRSTUVWXYZ0123456789+-.''"

definition ascii_letters :: string where
  "ascii_letters = ''abcdefghijklmnopqrstuvwxyzABCDEFGHIJKLMNOPQRSTUVWXYZ''"

definition uses_relative :: "string list" where
  "uses_relative =
     ['''', ''ftp'', ''http'', ''gopher'', ''nntp'', ''imap'', ''wais'', ''file'', ''https'',
      ''shttp'', ''mms'', ''prospero'', ''rtsp'', ''rtsps'', ''rtspu'', ''sftp'', ''svn'',
      ''svn+ssh'', ''ws'', ''wss'']"

definition uses_netloc :: "string list" where
  "uses_netloc =
     ['''', ''ftp'', ''http'', ''gopher'', ''nntp'', ''telnet'', ''imap'', ''wais'', ''file'',
      ''mms'', ''https'', ''shttp'', ''snews'', ''prospero'', ''rtsp'', ''rtsps'', ''rtspu'',
      ''rsync'', ''svn'', ''svn+ssh'', ''sftp'', ''nfs'', ''git'', ''git+ssh'', ''ws'', ''wss'']"

definition uses_params :: "string list" where
  "uses_params =
     ['''', ''ftp'', ''hdl'', ''prospero'', ''http'', ''imap'', ''https'', ''shttp'', ''rtsp'',
      ''rtsps'', ''rtspu'', ''sip'', ''sips'', ''mms'', ''sftp'', ''tel'']"

text \<open>The characters up to and including the space, which \<open>urlsplit\<close> strips.\<close>

definition c0_or_space :: "char \<Rightarrow> bool" where
  "c0_or_space c = ((of_char c :: nat) \<le> 32)"

text \<open>Tab, carriage return and line feed, which \<open>urlsplit\<close> removes everywhere.\<close>

definition unsafe_byte :: "char \<Rightarrow> bool" where
  "unsafe_byte c = (c = CHR 0x09 \<or> c = CHR 0x0D \<or> c = CHR 0x0A)"

text \<open>\<open>str.lower\<close>, which \<open>urlsplit\<close> applies to scheme characters only.\<close>

definition lower :: "char \<Rightarrow> char" where
  "lower c =
     (case map_of (zip ''ABCDEFGHIJKLMNOPQRSTUVWXYZ'' ''abcdefghijklmnopqrstuvwxyz'') c of
        Some l \<Rightarrow> l | None \<Rightarrow> c)"

text \<open>\<open>s.split(c)\<close>\<close>

fun split :: "char \<Rightarrow> string \<Rightarrow> string list" where
  "split c [] = [[]]"
| "split c (x # xs) =
     (if x = c then [] # split c xs
      else (case split c xs of [] \<Rightarrow> [[x]] | p # ps \<Rightarrow> (x # p) # ps))"

text \<open>\<open>if c in s: s, rest = s.split(c, 1)\<close>, with the empty rest otherwise.\<close>

definition cut :: "char \<Rightarrow> string \<Rightarrow> string \<times> string" where
  "cut c s =
     (if c \<in> set s then (takeWhile (\<lambda>x. x \<noteq> c) s, drop 1 (dropWhile (\<lambda>x. x \<noteq> c) s))
      else (s, []))"

text \<open>The first steps of \<open>urlsplit\<close>: strip the url and the default scheme.\<close>

definition strip_url :: "string \<Rightarrow> string" where
  "strip_url url = filter (\<lambda>c. \<not> unsafe_byte c) (dropWhile c0_or_space url)"

definition strip_scheme :: "string \<Rightarrow> string" where
  "strip_scheme s =
     filter (\<lambda>c. \<not> unsafe_byte c) (rev (dropWhile c0_or_space (rev (dropWhile c0_or_space s))))"

text \<open>
  The scheme test of \<open>urlsplit\<close>: a colon at a position \<open>i > 0\<close>, an ASCII letter first,
  and scheme characters only before the colon. It yields the scheme and the rest.
\<close>

definition split_scheme :: "string \<Rightarrow> string \<Rightarrow> string \<times> string" where
  "split_scheme url dflt =
     (let pre = takeWhile (\<lambda>c. c \<noteq> CHR '':'') url
      in if length pre < length url \<and> pre \<noteq> [] \<and> hd pre \<in> set ascii_letters
            \<and> list_all (\<lambda>c. c \<in> set scheme_chars) pre
         then (map lower pre, drop (Suc (length pre)) url)
         else (dflt, url))"

text \<open>\<open>if url[:2] == '//': netloc, url = _splitnetloc(url, 2)\<close>\<close>

definition netloc_delim :: "char \<Rightarrow> bool" where
  "netloc_delim c = (c = CHR ''/'' \<or> c = CHR ''?'' \<or> c = CHR ''#'')"

definition split_netloc :: "string \<Rightarrow> string \<times> string" where
  "split_netloc url =
     (if take 2 url = ''//''
      then (takeWhile (\<lambda>c. \<not> netloc_delim c) (drop 2 url),
            dropWhile (\<lambda>c. \<not> netloc_delim c) (drop 2 url))
      else ([], url))"

record split_result =
  scheme :: string
  netloc :: string
  path :: string
  query :: string
  fragment :: string

text \<open>
  \<open>urlsplit(url, scheme)\<close> with fragments allowed. A network location with a square
  bracket is outside the model (\<open>None\<close>): there CPython validates an IP literal or raises.
  \<open>_checknetloc\<close> rejects nothing on 8-bit strings: no compatibility decomposition of a
  code point below 256 contains one of \<open>/?#@:\<close>.
\<close>

definition urlsplit :: "string \<Rightarrow> string \<Rightarrow> split_result option" where
  "urlsplit url0 scheme0 =
     (case split_scheme (strip_url url0) (strip_scheme scheme0) of (scheme1, url1) \<Rightarrow>
      case split_netloc url1 of (netloc1, url2) \<Rightarrow>
      case cut CHR ''#'' url2 of (url3, fragment1) \<Rightarrow>
      case cut CHR ''?'' url3 of (url4, query1) \<Rightarrow>
        if CHR ''['' \<in> set netloc1 \<or> CHR '']'' \<in> set netloc1 then None
        else Some \<lparr>scheme = scheme1, netloc = netloc1, path = url4, query = query1,
                    fragment = fragment1\<rparr>)"

text \<open>\<open>_splitparams\<close>, called on a path that contains a semicolon.\<close>

definition splitparams :: "string \<Rightarrow> string \<times> string" where
  "splitparams url =
     (if CHR ''/'' \<in> set url then
        (let k = length url - Suc (length (takeWhile (\<lambda>c. c \<noteq> CHR ''/'') (rev url)));
             tl_part = drop k url
         in if CHR '';'' \<notin> set tl_part then (url, [])
            else (let i = k + length (takeWhile (\<lambda>c. c \<noteq> CHR '';'') tl_part)
                  in (take i url, drop (Suc i) url)))
      else (let i = length (takeWhile (\<lambda>c. c \<noteq> CHR '';'') url)
            in (take i url, drop (Suc i) url)))"

record parse_result = split_result +
  params :: string

definition urlparse :: "string \<Rightarrow> string \<Rightarrow> parse_result option" where
  "urlparse url scheme0 =
     (case urlsplit url scheme0 of
        None \<Rightarrow> None
      | Some r \<Rightarrow>
          (if scheme r \<in> set uses_params \<and> CHR '';'' \<in> set (path r)
           then Some \<lparr>scheme = scheme r, netloc = netloc r, path = fst (splitparams (path r)),
                       query = query r, fragment = fragment r,
                       params = snd (splitparams (path r))\<rparr>
           else Some \<lparr>scheme = scheme r, netloc = netloc r, path = path r,
                       query = query r, fragment = fragment r, params = []\<rparr>))"

subsection \<open>urlunparse and urljoin\<close>

definition urlunsplit :: "string \<Rightarrow> string \<Rightarrow> string \<Rightarrow> string \<Rightarrow> string \<Rightarrow> string" where
  "urlunsplit scheme0 netloc0 url0 query0 fragment0 =
     (let url1 = (if netloc0 \<noteq> [] \<or> (scheme0 \<noteq> [] \<and> scheme0 \<in> set uses_netloc)
                     \<or> take 2 url0 = ''//''
                  then ''//'' @ netloc0
                         @ (if url0 \<noteq> [] \<and> take 1 url0 \<noteq> ''/'' then ''/'' @ url0 else url0)
                  else url0);
          url2 = (if scheme0 \<noteq> [] then scheme0 @ '':'' @ url1 else url1);
          url3 = (if query0 \<noteq> [] then url2 @ ''?'' @ query0 else url2)
      in if fragment0 \<noteq> [] then url3 @ ''#'' @ fragment0 else url3)"

definition urlunparse ::
  "string \<Rightarrow> string \<Rightarrow> string \<Rightarrow> string \<Rightarrow> string \<Rightarrow> string \<Rightarrow> string" where
  "urlunparse scheme0 netloc0 url0 params0 query0 fragment0 =
     urlunsplit scheme0 netloc0 (if params0 \<noteq> [] then url0 @ '';'' @ params0 else url0)
       query0 fragment0"

text \<open>\<open>segments[1:-1] = filter(None, segments[1:-1])\<close>\<close>

fun drop_empty_inner :: "string list \<Rightarrow> string list" where
  "drop_empty_inner (x # y # ys) = x # filter (\<lambda>g. g \<noteq> []) (butlast (y # ys)) @ [last (y # ys)]"
| "drop_empty_inner xs = xs"

text \<open>The loop over the segments; popping from an empty list is ignored.\<close>

definition resolve_step :: "string list \<Rightarrow> string \<Rightarrow> string list" where
  "resolve_step resolved seg =
     (if seg = ''..'' then butlast resolved
      else if seg = ''.'' then resolved
      else resolved @ [seg])"

text \<open>
  The path of the joined URL, from the base path and a reference path that is not empty:
  the second half of \<open>urljoin\<close>.
\<close>

definition resolve_path :: "string \<Rightarrow> string \<Rightarrow> string" where
  "resolve_path bpath rpath =
     (let base_parts = split CHR ''/'' bpath;
          base_parts1 = (if last base_parts \<noteq> [] then butlast base_parts else base_parts);
          segments = (if take 1 rpath = ''/'' then split CHR ''/'' rpath
                      else drop_empty_inner (base_parts1 @ split CHR ''/'' rpath));
          resolved = foldl resolve_step [] segments;
          resolved_path = (if last segments = ''.'' \<or> last segments = ''..''
                           then resolved @ [[]] else resolved);
          joined = join ''/'' resolved_path
      in if joined = [] then ''/'' else joined)"

definition urljoin :: "string \<Rightarrow> string \<Rightarrow> string option" where
  "urljoin base url =
     (if base = [] then Some url
      else if url = [] then Some base
      else
        (case urlparse base [] of
           None \<Rightarrow> None
         | Some b \<Rightarrow>
             (case urlparse url (scheme b) of
                None \<Rightarrow> None
              | Some u \<Rightarrow>
                  (if scheme u \<noteq> scheme b \<or> scheme u \<notin> set uses_relative then Some url
                   else if scheme u \<in> set uses_netloc \<and> netloc u \<noteq> [] then
                     Some (urlunparse (scheme u) (netloc u) (path u) (params u) (query u)
                             (fragment u))
                   else
                     (let netloc1 = (if scheme u \<in> set uses_netloc then netloc b else netloc u)
                      in if path u = [] \<and> params u = [] then
                           Some (urlunparse (scheme u) netloc1 (path b) (params b)
                                   (if query u = [] then query b else query u) (fragment u))
                         else
                           Some (urlunparse (scheme u) netloc1 (resolve_path (path b) (path u))
                                   (params u) (query u) (fragment u)))))))"

section \<open>The client\<close>

datatype error = ValueError string | KeyError string | TransportError string

text \<open>A call of \<open>requests.get\<close>: the URL and the headers.\<close>

type_synonym request = "string \<times> (string \<times> pyval) list"

text \<open>
  The state outside the client object: the module's league table, which the methods read
  when they are called, and the calls of \<open>requests.get\<close> made so far, oldest first.
\<close>

record world =
  league_table :: "(string \<times> int) list"
  sent :: "request list"

text \<open>The state right after the module is loaded, given the requests made so far.\<close>

definition loaded :: "request list \<Rightarrow> world" where
  "loaded rs = \<lparr>league_table = LEAGUE_CODE, sent = rs\<rparr>"

text \<open>
  What a call of a method comes to: an exception raised, an exception object returned
  as the value (the \<open>return error\<close> of the lookup), or the decoded JSON.
\<close>

datatype 'j outcome = Raised error | Returned_error error | Returned 'j

record Football =
  api_key :: pyval
  headers :: "(string \<times> pyval) list"

definition API_URL :: string where
  "API_URL = ''http://api.football-data.org/v1/''"

text \<open>\<open>__init__\<close>\<close>

definition Football_init :: "pyval \<Rightarrow> Football" where
  "Football_init key = \<lparr>api_key = key, headers = [(''X-Auth-Token'', key)]\<rparr>"

text \<open>
  \<open>_generate_url\<close>. The parameters are the dictionary in insertion order; the empty list
  stands for every falsy \<open>query_params\<close> (None, the empty dictionary, and the falsy season
  that \<open>competitions\<close> passes on).
\<close>

definition generate_url :: "Football \<Rightarrow> string \<Rightarrow> (string \<times> string) list \<Rightarrow> string option" where
  "generate_url self action query_params =
     (let action1 = (if action = ''competitions'' \<or> action = ''fixtures'' then action @ ''/''
                     else action);
          action2 = (if query_params \<noteq> [] then action1 @ ''?'' @ urlencode query_params
                     else action1)
      in urljoin API_URL action2)"

text \<open>
  \<open>requests.get(url, headers=self.headers).json()\<close>: the call is recorded, and the
  environment \<open>respond\<close> decides whether it raises or which JSON it yields.
\<close>

definition get_json ::
  "(request \<Rightarrow> error + 'j) \<Rightarrow> string \<Rightarrow> (string \<times> pyval) list \<Rightarrow> world \<Rightarrow> 'j outcome \<times> world" where
  "get_json respond url hdrs w =
     ((case respond (url, hdrs) of Inl e \<Rightarrow> Raised e | Inr j \<Rightarrow> Returned j),
      w\<lparr>sent := sent w @ [(url, hdrs)]\<rparr>)"

text \<open>
  The three lines that end every method: build the URL, get it, return the JSON.
  The result is \<open>None\<close> where \<open>urljoin\<close> leaves the model.
\<close>

definition fetch ::
  "Football \<Rightarrow> (request \<Rightarrow> error + 'j) \<Rightarrow> string \<Rightarrow> (string \<times> string) list \<Rightarrow> world
     \<Rightarrow> ('j outcome \<times> world) option" where
  "fetch self respond action query_params w =
     (case generate_url self action query_params of
        None \<Rightarrow> None
      | Some url \<Rightarrow> Some (get_json respond url (headers self) w))"

text \<open>
  The block that opens \<open>teams\<close>, \<open>table\<close> and \<open>competition_fixtures\<close>: a string is looked
  up in the league table, and a missing key gives the KeyError to return.
\<close>

definition lookup_competition :: "world \<Rightarrow> pyval \<Rightarrow> error + pyval" where
  "lookup_competition w competition_id =
     (case competition_id of
        PStr s \<Rightarrow> (case map_of (league_table w) s of
                     None \<Rightarrow> Inl (KeyError s)
                   | Some n \<Rightarrow> Inr (PInt n))
      | _ \<Rightarrow> Inr competition_id)"

definition competitions ::
  "Football \<Rightarrow> (request \<Rightarrow> error + 'j) \<Rightarrow> pyval \<Rightarrow> world \<Rightarrow> ('j outcome \<times> world) option" where
  "competitions self respond season w =
     (if truthy season then
        (if \<not> re_match season_pattern (str season)
         then Some (Raised (ValueError ''season is invalid.''), w)
         else fetch self respond ''competitions'' [(''season'', str season)] w)
      else fetch self respond ''competitions'' [] w)"

definition teams ::
  "Football \<Rightarrow> (request \<Rightarrow> error + 'j) \<Rightarrow> pyval \<Rightarrow> world \<Rightarrow> ('j outcome \<times> world) option" where
  "teams self respond competition_id w =
     (case lookup_competition w competition_id of
        Inl e \<Rightarrow> Some (Returned_error e, w)
      | Inr cid \<Rightarrow> fetch self respond (''competitions/'' @ str cid @ ''/teams'') [] w)"

definition table ::
  "Football \<Rightarrow> (request \<Rightarrow> error + 'j) \<Rightarrow> pyval \<Rightarrow> pyval \<Rightarrow> world
     \<Rightarrow> ('j outcome \<times> world) option" where
  "table self respond competition_id matchday w =
     (case lookup_competition w competition_id of
        Inl e \<Rightarrow> Some (Returned_error e, w)
      | Inr cid \<Rightarrow>
          (if truthy matchday then
             (if \<not> re_match matchday_pattern (str matchday)
              then Some (Raised (ValueError ''matchday is invalid.''), w)
              else fetch self respond (''competitions/'' @ str cid @ ''/leagueTable'')
                     [(''matchday'', str matchday)] w)
           else fetch self respond (''competitions/'' @ str cid @ ''/leagueTable'') [] w))"

definition competition_fixtures ::
  "Football \<Rightarrow> (request \<Rightarrow> error + 'j) \<Rightarrow> pyval \<Rightarrow> pyval \<Rightarrow> pyval \<Rightarrow> world
     \<Rightarrow> ('j outcome \<times> world) option" where
  "competition_fixtures self respond competition_id matchday time_frame w =
     (case lookup_competition w competition_id of
        Inl e \<Rightarrow> Some (Returned_error e, w)
      | Inr cid \<Rightarrow>
          (if truthy matchday \<and> \<not> re_match matchday_pattern (str matchday)
           then Some (Raised (ValueError ''matchday is invalid.''), w)
           else
             (let query_params1 = (if truthy matchday then [(''matchday'', str matchday)] else [])
              in if truthy time_frame \<and> \<not> re_match time_frame_pattern (str time_frame)
                 then Some (Raised (ValueError ''time_frame is invalid.''), w)
                 else
                   (let query_params2 =
                          query_params1
                          @ (if truthy time_frame then [(''timeFrame'', str time_frame)] else [])
                    in fetch self respond (''competitions/'' @ str cid @ ''/fixtures'')
                         query_params2 w))))"

text \<open>\<open>league_code not in LEAGUE_CODE.keys()\<close>: only a string can be a key.\<close>

definition in_keys :: "world \<Rightarrow> pyval \<Rightarrow> bool" where
  "in_keys w v = (case v of PStr s \<Rightarrow> s \<in> set (map fst (league_table w)) | _ \<Rightarrow> False)"

definition fixtures ::
  "Football \<Rightarrow> (request \<Rightarrow> error + 'j) \<Rightarrow> pyval \<Rightarrow> pyval \<Rightarrow> world
     \<Rightarrow> ('j outcome \<times> world) option" where
  "fixtures self respond time_frame league_code w =
     (if truthy time_frame \<and> \<not> re_match time_frame_pattern (str time_frame)
      then Some (Raised (ValueError ''time_frame is invalid.''), w)
      else
        (let query_params1 = (if truthy time_frame then [(''timeFrame'', str time_frame)] else [])
         in if truthy league_code \<and> \<not> in_keys w league_code
            then Some (Raised (ValueError ''league_code is invalid.''), w)
            else
              (let query_params2 =
                     query_params1
                     @ (if truthy league_code then [(''league'', str league_code)] else [])
               in fetch self respond ''fixtures'' query_params2 w)))"

definition fixture ::
  "Football \<Rightarrow> (request \<Rightarrow> error + 'j) \<Rightarrow> pyval \<Rightarrow> world \<Rightarrow> ('j outcome \<times> world) option" where
  "fixture self respond fixture_id w =
     fetch self respond (''fixtures/'' @ str fixture_id) [] w"

text \<open>\<open>venue not in ("home", "away")\<close>: only a string can equal one of the two.\<close>

definition home_or_away :: "pyval \<Rightarrow> bool" where
  "home_or_away v = (case v of PStr s \<Rightarrow> s = ''home'' \<or> s = ''away'' | _ \<Rightarrow> False)"

definition team_fixtures ::
  "Football \<Rightarrow> (request \<Rightarrow> error + 'j) \<Rightarrow> pyval \<Rightarrow> pyval \<Rightarrow> pyval \<Rightarrow> pyval \<Rightarrow> world
     \<Rightarrow> ('j outcome \<times> world) option" where
  "team_fixtures self respond team_id season time_frame venue w =
     (if truthy season \<and> \<not> re_match season_pattern (str season)
      then Some (Raised (ValueError ''season is invalid.''), w)
      else
        (let query_params1 = (if truthy season then [(''season'', str season)] else [])
         in if truthy time_frame \<and> \<not> re_match time_frame_pattern (str time_frame)
            then Some (Raised (ValueError ''time_frame is invalid.''), w)
            else
              (let query_params2 =
                     query_params1
                     @ (if truthy time_frame then [(''timeFrame'', str time_frame)] else [])
               in if truthy venue \<and> \<not> home_or_away venue
                  then Some (Raised (ValueError ''venue is invalid.''), w)
                  else
                    (let query_params3 =
                           query_params2
                           @ (if truthy venue then [(''venue'', str venue)] else [])
                     in fetch self respond (''teams/'' @ str team_id @ ''/fixtures'')
                          query_params3 w))))"

definition team ::
  "Football \<Rightarrow> (request \<Rightarrow> error + 'j) \<Rightarrow> pyval \<Rightarrow> world \<Rightarrow> ('j outcome \<times> world) option" where
  "team self respond team_id w = fetch self respond (''teams/'' @ str team_id) [] w"

definition players ::
  "Football \<Rightarrow> (request \<Rightarrow> error + 'j) \<Rightarrow> pyval \<Rightarrow> world \<Rightarrow> ('j outcome \<times> world) option" where
  "players self respond team_id w =
     fetch self respond (''teams/'' @ str team_id @ ''/players'') [] w"

section \<open>Predicates of the statements\<close>

definition is_digit :: "char \<Rightarrow> bool" where
  "is_digit c = (c \<in> set ''0123456789'')"

definition one_to_nine :: "char \<Rightarrow> bool" where
  "one_to_nine c = (c \<in> set ''123456789'')"

text \<open>A season as the specification words it: exactly four decimal digits.\<close>

definition exactly_four_digits :: "string \<Rightarrow> bool" where
  "exactly_four_digits s = (length s = 4 \<and> list_all is_digit s)"

definition begins_with_four_digits :: "string \<Rightarrow> bool" where
  "begins_with_four_digits s = (4 \<le> length s \<and> list_all is_digit (take 4 s))"

text \<open>A matchday as the specification words it: one or more decimal digits.\<close>

definition digits_only :: "string \<Rightarrow> bool" where
  "digits_only s = (s \<noteq> [] \<and> list_all is_digit s)"

definition begins_with_digit :: "string \<Rightarrow> bool" where
  "begins_with_digit s = (case s of [] \<Rightarrow> False | c # r \<Rightarrow> is_digit c)"



text \<open>A string that begins with p, or with n and a digit from 1 to 9.\<close>

definition time_frame_prefix :: "string \<Rightarrow> bool" where
  "time_frame_prefix s =
     (case s of [] \<Rightarrow> False
      | c # r \<Rightarrow> c = CHR ''p'' \<or>
                 (c = CHR ''n'' \<and> (case r of [] \<Rightarrow> False | d # t \<Rightarrow> one_to_nine d)))"

text \<open>
  A competition identifier that the lookup accepts: a value that is not a string, or a
  key of the league table.
\<close>

definition accepted_id :: "world \<Rightarrow> pyval \<Rightarrow> bool" where
  "accepted_id w cid = (case cid of PStr s \<Rightarrow> s \<in> set (map fst (league_table w)) | _ \<Rightarrow> True)"

text \<open>A call came to an outcome and left the league table as it was.\<close>

definition keeps_table :: "world \<Rightarrow> ('j outcome \<times> world) option \<Rightarrow> bool" where
  "keeps_table w r = (case r of None \<Rightarrow> False | Some (out, w') \<Rightarrow> league_table w' = league_table w)"

text \<open>An environment in which every request fails.\<close>

definition offline :: "request \<Rightarrow> error + unit" where
  "offline r = Inl (TransportError ''offline'')"

text \<open>The characters of an encoded query string, of a path, and a path segment without dots.\<close>

definition query_char :: "char \<Rightarrow> bool" where
  "query_char c = (c \<in> set ALWAYS_SAFE \<or> c \<in> set ''%+=&'')"

definition path_char :: "char \<Rightarrow> bool" where
  "path_char c = (c \<in> set ALWAYS_SAFE \<or> c = CHR ''/'')"

definition plain_seg :: "string \<Rightarrow> bool" where
  "plain_seg s = (s \<noteq> [] \<and> s \<noteq> ''.'' \<and> s \<noteq> ''..'' \<and> list_all (\<lambda>c. c \<in> set ALWAYS_SAFE) s)"

text \<open>
  The entry that an optional parameter adds to the query parameters: none when the value
  is falsy, and otherwise the key with the string form of the value.
\<close>

definition optional :: "string \<Rightarrow> pyval \<Rightarrow> (string \<times> string) list" where
  "optional k v = (if truthy v then [(k, str v)] else [])"

text \<open>What follows the path in a URL: nothing, or a question mark and the encoded parameters.\<close>

definition query_suffix :: "(string \<times> string) list \<Rightarrow> string" where
  "query_suffix qp = (if qp = [] then [] else ''?'' @ urlencode qp)"

section \<open>Lemmas on the patterns\<close>

lemma range_1_9: "in_cls (Range CHR ''1'' CHR ''9'') c = (c \<in> set ''123456789'')"
proof
  assume "in_cls (Range CHR ''1'' CHR ''9'') c"
  then have b: "(49::nat) \<le> of_char c" "of_char c \<le> (57::nat)" by simp_all
  have eq: "c = d" if "(of_char c :: nat) = of_char d" for d
    using that by (simp only: of_char_eq_iff)
  from b consider "(of_char c :: nat) = 49" | "(of_char c :: nat) = 50" | "(of_char c :: nat) = 51"
    | "(of_char c :: nat) = 52" | "(of_char c :: nat) = 53" | "(of_char c :: nat) = 54"
    | "(of_char c :: nat) = 55" | "(of_char c :: nat) = 56" | "(of_char c :: nat) = 57"
    by linarith
  then show "c \<in> set ''123456789''"
  proof cases
    case 1 then have "c = CHR ''1''" by (intro eq) simp then show ?thesis by simp
  next
    case 2 then have "c = CHR ''2''" by (intro eq) simp then show ?thesis by simp
  next
    case 3 then have "c = CHR ''3''" by (intro eq) simp then show ?thesis by simp
  next
    case 4 then have "c = CHR ''4''" by (intro eq) simp then show ?thesis by simp
  next
    case 5 then have "c = CHR ''5''" by (intro eq) simp then show ?thesis by simp
  next
    case 6 then have "c = CHR ''6''" by (intro eq) simp then show ?thesis by simp
  next
    case 7 then have "c = CHR ''7''" by (intro eq) simp then show ?thesis by simp
  next
    case 8 then have "c = CHR ''8''" by (intro eq) simp then show ?thesis by simp
  next
    case 9 then have "c = CHR ''9''" by (intro eq) simp then show ?thesis by simp
  qed
next
  assume "c \<in> set ''123456789''"
  then show "in_cls (Range CHR ''1'' CHR ''9'') c" by auto
qed

lemma rests_once: "rests_item (once k) s = (case s of [] \<Rightarrow> [] | c # r \<Rightarrow> if in_cls k c then [r] else [])"
  by (cases s) (auto simp: once_def upt_rec)

lemma season_match:
  "re_match season_pattern s =
     (\<exists>a b c d r. s = a # b # c # d # r \<and> in_cls Digit a \<and> in_cls Digit b \<and> in_cls Digit c \<and> in_cls Digit d)"
proof (cases s)
  case Nil
  then show ?thesis by (simp add: re_match_def season_pattern_def rests_once)
next
  case s1: (Cons a t1)
  show ?thesis
  proof (cases t1)
    case Nil
    then show ?thesis using s1 by (simp add: re_match_def season_pattern_def rests_once del: in_cls.simps)
  next
    case s2: (Cons b t2)
    show ?thesis
    proof (cases t2)
      case Nil
      then show ?thesis using s1 s2 by (simp add: re_match_def season_pattern_def rests_once del: in_cls.simps)
    next
      case s3: (Cons c t3)
      show ?thesis
      proof (cases t3)
        case Nil
        then show ?thesis using s1 s2 s3 by (simp add: re_match_def season_pattern_def rests_once del: in_cls.simps)
      next
        case (Cons d r)
        then show ?thesis using s1 s2 s3 by (simp add: re_match_def season_pattern_def rests_once del: in_cls.simps)
      qed
    qed
  qed
qed

lemma matchday_match:
  "re_match matchday_pattern s = (\<exists>a r. s = a # r \<and> in_cls Digit a)"
  unfolding re_match_def matchday_pattern_def
  by (cases s) (auto simp del: in_cls.simps)

lemma rests_range_nonempty:
  "rests_item (k, Suc 0, Some 2) t \<noteq> [] \<longleftrightarrow> (\<exists>c r. t = c # r \<and> in_cls k c)"
  by (cases t) (auto simp del: in_cls.simps)

lemma time_frame_match:
  "re_match time_frame_pattern s =
     ((\<exists>r. s = CHR ''p'' # r)
      \<or> (\<exists>c r. s = CHR ''n'' # c # r \<and> in_cls (Range CHR ''1'' CHR ''9'') c))"
proof (cases s)
  case Nil
  then show ?thesis by (simp add: re_match_def time_frame_pattern_def rests_once)
next
  case (Cons a t)
  have "rests_seq [(Range CHR ''1'' CHR ''9'', 1, Some 2)] t \<noteq> [] \<longleftrightarrow>
          rests_item (Range CHR ''1'' CHR ''9'', 1, Some 2) t \<noteq> []"
    by (simp del: rests_item.simps)
  then show ?thesis
    using Cons
    by (auto simp: re_match_def time_frame_pattern_def rests_once rests_range_nonempty
             simp del: in_cls.simps(3) rests_item.simps)
qed

section \<open>Lemmas on quoting and on str\<close>

lemma hex_digit_safe:
  assumes "k < 16"
  shows "''0123456789ABCDEF'' ! k \<in> set ALWAYS_SAFE"
proof -
  have "''0123456789ABCDEF'' ! k \<in> set ''0123456789ABCDEF''"
    using assms by (intro nth_mem) simp
  then show ?thesis by (auto simp: ALWAYS_SAFE_def)
qed

lemma percent_hex_chars: "list_all (\<lambda>c. c \<in> set ALWAYS_SAFE \<or> c = CHR ''%'') (percent_hex b)"
proof -
  have "(of_char b :: nat) < 256" by simp
  then have "(of_char b :: nat) div 16 < 16" "(of_char b :: nat) mod 16 < 16" by arith+
  then show ?thesis
    by (simp add: percent_hex_def Let_def hex_digit_safe del: nth_Cons_numeral)
qed

lemma quoter_chars:
  "list_all (\<lambda>c. c \<in> set ALWAYS_SAFE \<or> c \<in> set safe \<or> c = CHR ''%'') (quoter safe b)"
  using percent_hex_chars[of b] by (auto simp: quoter_def list_all_iff)

lemma quote_chars:
  "list_all (\<lambda>c. c \<in> set ALWAYS_SAFE \<or> c \<in> set safe \<or> c = CHR ''%'') (quote s safe)"
  using quoter_chars[of safe] by (auto simp: quote_def list_all_iff)

lemma quote_plus_chars: "list_all query_char (quote_plus s)"
proof (cases "CHR '' '' \<in> set s")
  case False
  then show ?thesis
    using quote_chars[of "''''" s] by (auto simp: quote_plus_def list_all_iff query_char_def)
next
  case True
  then show ?thesis
    using quote_chars[of "'' ''" s] by (auto simp: quote_plus_def list_all_iff query_char_def)
qed

lemma safe_ascii: "c \<in> set ALWAYS_SAFE \<Longrightarrow> (of_char c :: nat) < 128"
  by (auto simp: ALWAYS_SAFE_def)

lemma quote_safe: "list_all (\<lambda>c. c \<in> set ALWAYS_SAFE) s \<Longrightarrow> quote s safe = s"
  by (induction s) (auto simp: quote_def utf8_def quoter_def safe_ascii)

lemma quote_plus_safe:
  assumes "list_all (\<lambda>c. c \<in> set ALWAYS_SAFE) s"
  shows "quote_plus s = s"
proof -
  have "CHR '' '' \<notin> set ALWAYS_SAFE" by (simp add: ALWAYS_SAFE_def)
  with assms have "CHR '' '' \<notin> set s" by (auto simp: list_all_iff)
  then show ?thesis by (simp add: quote_plus_def quote_safe[OF assms])
qed

lemma join_chars:
  "list_all P sep \<Longrightarrow> list_all (list_all P) xs \<Longrightarrow> list_all P (join sep xs)"
  by (induction sep xs rule: join.induct) auto

lemma urlencode_chars: "list_all query_char (urlencode qp)"
proof -
  have "list_all (list_all query_char) (map (\<lambda>(k, v). quote_plus k @ ''='' @ quote_plus v) qp)"
    using quote_plus_chars by (auto simp: list_all_iff query_char_def)
  moreover have "list_all query_char ''&''" by (simp add: query_char_def)
  ultimately show ?thesis unfolding urlencode_def by (rule join_chars[rotated])
qed

lemma join_nonempty: "x \<noteq> [] \<Longrightarrow> join sep (x # xs) \<noteq> []"
  by (cases xs) auto

lemma urlencode_nonempty: "qp \<noteq> [] \<Longrightarrow> urlencode qp \<noteq> []"
  by (cases qp) (auto simp: urlencode_def intro!: join_nonempty)

lemma str_nat_digits: "list_all (\<lambda>c. c \<in> set ''0123456789'') (str_nat n)"
proof (induction n rule: str_nat.induct)
  case (1 n)
  have d: "''0123456789'' ! k \<in> set ''0123456789''" if "k < 10" for k
    using that by (intro nth_mem) simp
  show ?case
  proof (cases "n < 10")
    case True
    then show ?thesis using d[of n] by (subst str_nat.simps) (simp del: nth_Cons_numeral set_simps)
  next
    case False
    have "n mod 10 < 10" by simp
    then show ?thesis
      using False 1 d[of "n mod 10"]
      by (subst str_nat.simps) (simp del: nth_Cons_numeral set_simps)
  qed
qed

lemma str_nat_nonempty: "str_nat n \<noteq> []"
  by (subst str_nat.simps) simp

section \<open>Lemmas on joining a relative reference\<close>

lemma safe_char_facts:
  assumes "c \<in> set ALWAYS_SAFE"
  shows "\<not> unsafe_byte c" "\<not> c0_or_space c" "c \<noteq> CHR '':''" "c \<noteq> CHR ''#''"
    "c \<noteq> CHR ''?''" "c \<noteq> CHR ''/''" "c \<noteq> CHR '';''" "c \<noteq> CHR '' ''"
  using assms by (auto simp: ALWAYS_SAFE_def unsafe_byte_def c0_or_space_def)

lemma query_char_facts:
  assumes "query_char c"
  shows "\<not> unsafe_byte c" "c \<noteq> CHR '':''" "c \<noteq> CHR ''#''"
  using assms by (auto simp: query_char_def ALWAYS_SAFE_def unsafe_byte_def)

lemma path_char_facts:
  assumes "path_char c"
  shows "\<not> unsafe_byte c" "c \<noteq> CHR '':''" "c \<noteq> CHR ''#''" "c \<noteq> CHR ''?''" "c \<noteq> CHR '';''"
  using assms safe_char_facts[of c] by (auto simp: path_char_def unsafe_byte_def)


lemma strip_url_id:
  assumes "u \<noteq> []" "\<not> c0_or_space (hd u)" "list_all (\<lambda>c. \<not> unsafe_byte c) u"
  shows "strip_url u = u"
proof -
  from assms(1,2) have "dropWhile c0_or_space u = u" by (cases u) auto
  moreover from assms(3) have "filter (\<lambda>c. \<not> unsafe_byte c) u = u"
    by (simp add: list_all_iff)
  ultimately show ?thesis by (simp add: strip_url_def)
qed

lemma split_scheme_none:
  assumes "CHR '':'' \<notin> set u"
  shows "split_scheme u d = (d, u)"
proof -
  from assms have pre: "takeWhile (\<lambda>c. c \<noteq> CHR '':'') u = u"
    by (induction u) auto
  show ?thesis unfolding split_scheme_def pre by simp
qed

lemma split_netloc_none:
  assumes "u \<noteq> []" "hd u \<noteq> CHR ''/''"
  shows "split_netloc u = ([], u)"
  using assms by (cases u) (auto simp: split_netloc_def)

lemma cut_absent: "c \<notin> set s \<Longrightarrow> cut c s = (s, [])"
  by (simp add: cut_def)

lemma cut_at: "c \<notin> set p \<Longrightarrow> cut c (p @ c # q) = (p, q)"
  by (induction p) (auto simp: cut_def)

lemma strip_scheme_http: "strip_scheme ''http'' = ''http''"
  by (simp add: strip_scheme_def c0_or_space_def unsafe_byte_def)

lemma urlsplit_relative:
  assumes p: "p \<noteq> []" "hd p \<in> set ALWAYS_SAFE" "list_all path_char p"
    and q: "list_all query_char q"
  shows "urlsplit (p @ (if q = [] then [] else CHR ''?'' # q)) ''http'' =
           Some \<lparr>scheme = ''http'', netloc = [], path = p, query = q, fragment = []\<rparr>"
proof -
  let ?u = "p @ (if q = [] then [] else CHR ''?'' # q)"
  have u_ne: "?u \<noteq> []" and hd_u: "hd ?u = hd p" using p(1) by auto
  have qm: "\<not> unsafe_byte CHR ''?''" by (simp add: unsafe_byte_def)
  have no_unsafe: "list_all (\<lambda>c. \<not> unsafe_byte c) ?u"
    using p(3) q qm by (auto simp: list_all_iff dest: path_char_facts(1) query_char_facts(1))
  have s1: "strip_url ?u = ?u"
    using u_ne hd_u safe_char_facts(2)[OF p(2)] no_unsafe by (intro strip_url_id) auto
  have no_colon: "CHR '':'' \<notin> set ?u"
    using p(3) q by (auto simp: list_all_iff dest: path_char_facts(2) query_char_facts(2))
  have no_hash: "CHR ''#'' \<notin> set ?u"
    using p(3) q by (auto simp: list_all_iff dest: path_char_facts(3) query_char_facts(3))
  have no_q: "CHR ''?'' \<notin> set p"
    using p(3) by (auto simp: list_all_iff dest: path_char_facts(4))
  have s2: "split_scheme ?u ''http'' = (''http'', ?u)" by (rule split_scheme_none[OF no_colon])
  have s3: "split_netloc ?u = ([], ?u)"
    using u_ne hd_u safe_char_facts(6)[OF p(2)] by (intro split_netloc_none) auto
  have s4: "cut CHR ''#'' ?u = (?u, [])" by (rule cut_absent[OF no_hash])
  have s5: "cut CHR ''?'' ?u = (p, q)"
    using no_q by (auto simp: cut_absent cut_at)
  show ?thesis
    unfolding urlsplit_def s1 strip_scheme_http s2 s3 s4 s5 prod.case by simp
qed

lemma urlparse_relative:
  assumes p: "p \<noteq> []" "hd p \<in> set ALWAYS_SAFE" "list_all path_char p"
    and q: "list_all query_char q"
  shows "urlparse (p @ (if q = [] then [] else CHR ''?'' # q)) ''http'' =
           Some \<lparr>scheme = ''http'', netloc = [], path = p, query = q, fragment = [], params = []\<rparr>"
proof -
  have "CHR '';'' \<notin> set p"
    using p(3) by (auto simp: list_all_iff dest: path_char_facts(5))
  then show ?thesis
    unfolding urlparse_def urlsplit_relative[OF assms] by simp
qed

lemma urlparse_API_URL:
  "urlparse API_URL [] =
     Some \<lparr>scheme = ''http'', netloc = ''api.football-data.org'', path = ''/v1/'',
            query = [], fragment = [], params = []\<rparr>"
  by code_simp

lemma urlunparse_http:
  "urlunparse ''http'' ''api.football-data.org'' (CHR ''/'' # x) [] q [] =
     ''http://api.football-data.org/'' @ x @ (if q = [] then [] else CHR ''?'' # q)"
  by (simp add: urlunparse_def urlunsplit_def)


lemma urljoin_relative:
  assumes p: "p \<noteq> []" "hd p \<in> set ALWAYS_SAFE" "list_all path_char p"
    and q: "list_all query_char q"
  shows "urljoin API_URL (p @ (if q = [] then [] else CHR ''?'' # q)) =
           Some (urlunparse ''http'' ''api.football-data.org'' (resolve_path ''/v1/'' p) [] q [])"
proof -
  have ne: "API_URL \<noteq> []" "p @ (if q = [] then [] else CHR ''?'' # q) \<noteq> []"
    using p(1) by (simp_all add: API_URL_def)
  have lists: "''http'' \<in> set uses_relative" "''http'' \<in> set uses_netloc"
    by (simp_all add: uses_relative_def uses_netloc_def)
  have u: "urlparse (p @ (if q = [] then [] else CHR ''?'' # q)) ''http'' =
       Some \<lparr>scheme = ''http'', netloc = [], path = p, query = q, fragment = [], params = []\<rparr>"
    by (rule urlparse_relative[OF assms])
  show ?thesis
    using ne lists p(1) by (simp add: urljoin_def urlparse_API_URL u)
qed

lemma split_no_sep: "c \<notin> set s \<Longrightarrow> split c s = [s]"
  by (induction s) auto

lemma split_append: "c \<notin> set s \<Longrightarrow> split c (s @ c # r) = s # split c r"
  by (induction s) auto

lemma join_Cons: "ss \<noteq> [] \<Longrightarrow> join sep (s # ss) = s @ sep @ join sep ss"
  by (cases ss) auto

lemma split_join:
  assumes "ss \<noteq> []" "list_all (\<lambda>s. c \<notin> set s) ss"
  shows "split c (join [c] ss) = ss"
  using assms
proof (induction ss)
  case Nil
  then show ?case by simp
next
  case (Cons s ss)
  show ?case
  proof (cases "ss = []")
    case True
    with Cons.prems show ?thesis by (simp add: split_no_sep)
  next
    case False
    with Cons show ?thesis by (simp add: join_Cons split_append)
  qed
qed

lemma foldl_resolve_plain:
  "list_all (\<lambda>s. s \<noteq> ''.'' \<and> s \<noteq> ''..'') ss \<Longrightarrow> foldl resolve_step acc ss = acc @ ss"
  by (induction ss arbitrary: acc) (auto simp: resolve_step_def)

lemma plain_seg_facts:
  assumes "plain_seg s"
  shows "s \<noteq> []" "s \<noteq> ''.''" "s \<noteq> ''..''" "CHR ''/'' \<notin> set s" "hd s \<in> set ALWAYS_SAFE"
    "list_all path_char s"
  using assms safe_char_facts(6)
  by (auto simp: plain_seg_def list_all_iff path_char_def)

lemma filter_nonempty_plain: "list_all plain_seg ss \<Longrightarrow> filter (\<lambda>g. g \<noteq> []) ss = ss"
  by (induction ss) (auto dest: plain_seg_facts(1))

lemma list_all_butlast: "list_all P xs \<Longrightarrow> list_all P (butlast xs)"
  by (auto simp: list_all_iff dest: in_set_butlastD)

lemma resolve_path_plain:
  assumes "ss \<noteq> []" "list_all plain_seg ss"
  shows "resolve_path ''/v1/'' (join ''/'' ss) = ''/v1/'' @ join ''/'' ss"
proof -
  have no_sep: "list_all (\<lambda>s. CHR ''/'' \<notin> set s) ss"
    using assms(2) by (auto simp: list_all_iff dest: plain_seg_facts(4))
  have sp: "split CHR ''/'' (join ''/'' ss) = ss"
    using split_join[OF assms(1) no_sep] by simp
  have base: "split CHR ''/'' ''/v1/'' = [[], ''v1'', []]" by simp
  obtain s rest where ss: "ss = s # rest" using assms(1) by (cases ss) auto
  have hd_ne: "take 1 (join ''/'' ss) \<noteq> ''/''"
    using assms(2) plain_seg_facts(1,4)[of s] unfolding ss by (cases s; cases rest) auto
  have inner: "drop_empty_inner ([] # ''v1'' # [] # ss) = [] # ''v1'' # ss"
    using assms filter_nonempty_plain[OF list_all_butlast[OF assms(2)]]
    by simp
  have bp: "(if last [[], ''v1'', []] \<noteq> [] then butlast [[], ''v1'', []] else [[], ''v1'', []])
              = [[], ''v1'', []]"
    by simp
  have sg: "(if take 1 (join ''/'' ss) = ''/'' then ss
             else drop_empty_inner ([[], ''v1'', []] @ ss)) = [[], ''v1''] @ ss"
    using hd_ne by (simp add: inner del: drop_empty_inner.simps)
  have nodots: "list_all (\<lambda>s. s \<noteq> ''.'' \<and> s \<noteq> ''..'') ([[], ''v1''] @ ss)"
    using assms(2) by (auto simp: list_all_iff dest: plain_seg_facts(2,3))
  have rs: "foldl resolve_step [] ([[], ''v1''] @ ss) = [[], ''v1''] @ ss"
    using foldl_resolve_plain[OF nodots, of "[]"] by (simp only: append_Nil)
  have lst: "(last ([[], ''v1''] @ ss) = ''.'' \<or> last ([[], ''v1''] @ ss) = ''..'') = False"
    using plain_seg_facts(2,3)[of "last ss"] last_in_set[OF assms(1)] assms
    by (auto simp: list_all_iff)
  have jn: "join ''/'' ([[], ''v1''] @ ss) = ''/v1/'' @ join ''/'' ss"
    unfolding ss by simp
  show ?thesis
    unfolding resolve_path_def Let_def sp base bp sg rs lst if_False jn by simp
qed

lemma urlsplit_total:
  assumes "plain_seg p"
  shows "\<exists>r. urlsplit (p @ CHR ''/'' # rest) sch = Some r"
proof -
  let ?r = "filter (\<lambda>c. \<not> unsafe_byte c) rest"
  let ?u = "p @ CHR ''/'' # ?r"
  have ne: "p \<noteq> []" and safe: "list_all (\<lambda>c. c \<in> set ALWAYS_SAFE) p"
    using assms by (simp_all add: plain_seg_def)
  note mem = plain_seg_facts(5)[OF assms]
  have dw: "dropWhile c0_or_space (p @ CHR ''/'' # rest) = p @ CHR ''/'' # rest"
    using ne safe_char_facts(2)[OF mem] by (cases p) auto
  have fl: "filter (\<lambda>c. \<not> unsafe_byte c) p = p"
    using safe by (auto simp: list_all_iff filter_id_conv dest: safe_char_facts(1))
  have sl: "\<not> unsafe_byte CHR ''/''" by (simp add: unsafe_byte_def)
  have s1: "strip_url (p @ CHR ''/'' # rest) = ?u"
    by (simp add: strip_url_def dw fl sl)
  have nc: "c \<noteq> CHR '':''" if "c \<in> set p" for c
    using that safe safe_char_facts(3)[of c] by (auto simp: list_all_iff)
  have tw: "takeWhile (\<lambda>c. c \<noteq> CHR '':'') ?u = p @ CHR ''/'' # takeWhile (\<lambda>c. c \<noteq> CHR '':'') ?r"
    using nc by (simp add: takeWhile_append2)
  have ns: "CHR ''/'' \<notin> set scheme_chars" by (simp add: scheme_chars_def)
  have s2: "split_scheme ?u d = (d, ?u)" for d
    unfolding split_scheme_def Let_def tw using ns by simp
  have s3: "split_netloc ?u = ([], ?u)"
    using ne safe_char_facts(6)[OF mem] by (intro split_netloc_none) auto
  show ?thesis
    unfolding urlsplit_def s1 s2 s3 prod.case by (simp split: prod.split)
qed

lemma urljoin_total:
  assumes "plain_seg p"
  shows "\<exists>u. urljoin API_URL (p @ CHR ''/'' # rest) = Some u"
proof -
  obtain r where r: "urlsplit (p @ CHR ''/'' # rest) ''http'' = Some r"
    using urlsplit_total[OF assms] by blast
  then have "\<exists>r'. urlparse (p @ CHR ''/'' # rest) ''http'' = Some r'"
    by (simp add: urlparse_def)
  then obtain r' where r': "urlparse (p @ CHR ''/'' # rest) ''http'' = Some r'"
    by blast
  have ne: "API_URL \<noteq> []" by (simp add: API_URL_def)
  show ?thesis
    using ne by (simp add: urljoin_def urlparse_API_URL r' Let_def)
qed

section \<open>Lemmas on the generated URL\<close>


lemma list_all_imp: "list_all P xs \<Longrightarrow> (\<And>x. P x \<Longrightarrow> Q x) \<Longrightarrow> list_all Q xs"
  by (induction xs) auto

lemma join_plain_path:
  assumes "ss \<noteq> []" "list_all plain_seg ss"
  shows "join ''/'' ss \<noteq> []" "hd (join ''/'' ss) \<in> set ALWAYS_SAFE"
    "list_all path_char (join ''/'' ss)"
proof -
  obtain s rest where ss: "ss = s # rest" using assms(1) by (cases ss) auto
  then have s: "plain_seg s" using assms(2) by simp
  show "join ''/'' ss \<noteq> []"
    unfolding ss using plain_seg_facts(1)[OF s] by (rule join_nonempty)
  show "hd (join ''/'' ss) \<in> set ALWAYS_SAFE"
    unfolding ss using plain_seg_facts(1,5)[OF s] by (cases rest) auto
  have "list_all (list_all path_char) ss"
    using assms(2) by (rule list_all_imp) (rule plain_seg_facts(6))
  moreover have "list_all path_char ''/''" by (simp add: path_char_def)
  ultimately show "list_all path_char (join ''/'' ss)" by (rule join_chars[rotated])
qed

lemma urljoin_plain:
  assumes "ss \<noteq> []" "list_all plain_seg ss" "list_all query_char q"
  shows "urljoin API_URL (join ''/'' ss @ (if q = [] then [] else CHR ''?'' # q)) =
           Some (API_URL @ join ''/'' ss @ (if q = [] then [] else CHR ''?'' # q))"
  unfolding urljoin_relative[OF join_plain_path[OF assms(1,2)] assms(3)]
    resolve_path_plain[OF assms(1,2)]
  by (simp add: urlunparse_http API_URL_def)

lemma generate_url_plain:
  assumes "ss \<noteq> []" "list_all plain_seg ss"
    and "join ''/'' ss \<noteq> ''competitions''" "join ''/'' ss \<noteq> ''fixtures''"
  shows "generate_url self (join ''/'' ss) qp =
           Some (API_URL @ join ''/'' ss @ (if qp = [] then [] else ''?'' @ urlencode qp))"
proof (cases "qp = []")
  case True
  then show ?thesis
    using assms(3,4) urljoin_plain[OF assms(1,2), of "[]"]
    by (simp add: generate_url_def)
next
  case False
  then show ?thesis
    using assms(3,4) urljoin_plain[OF assms(1,2) urlencode_chars, of qp] urlencode_nonempty[OF False]
    by (simp add: generate_url_def)
qed

lemma resolve_path_roots:
  "resolve_path ''/v1/'' ''competitions/'' = ''/v1/competitions/''"
  "resolve_path ''/v1/'' ''fixtures/'' = ''/v1/fixtures/''"
  by (simp_all add: resolve_path_def resolve_step_def)

lemma generate_url_root:
  assumes "action = ''competitions'' \<or> action = ''fixtures''"
  shows "generate_url self action qp =
           Some (API_URL @ action @ ''/'' @ (if qp = [] then [] else ''?'' @ urlencode qp))"
proof -
  let ?q = "if qp = [] then [] else urlencode qp"
  have q: "list_all query_char ?q" using urlencode_chars by simp
  have qe: "?q = [] \<longleftrightarrow> qp = []" using urlencode_nonempty by simp
  have p: "action @ ''/'' \<noteq> []" "hd (action @ ''/'') \<in> set ALWAYS_SAFE"
    "list_all path_char (action @ ''/'')"
    using assms by (auto simp: ALWAYS_SAFE_def path_char_def)
  have r: "resolve_path ''/v1/'' (action @ ''/'') = ''/v1/'' @ action @ ''/''"
    using assms resolve_path_roots by auto
  have "urljoin API_URL ((action @ ''/'') @ (if ?q = [] then [] else CHR ''?'' # ?q)) =
          Some (API_URL @ action @ ''/'' @ (if qp = [] then [] else ''?'' @ urlencode qp))"
    unfolding urljoin_relative[OF p q] r using qe
    by (simp add: urlunparse_http API_URL_def)
  then show ?thesis
    using assms qe by (auto simp: generate_url_def)
qed

lemma sign_digit_safe:
  assumes "c \<in> set ''-0123456789''"
  shows "c \<in> set ALWAYS_SAFE" "c \<noteq> CHR ''.''"
  using assms by (auto simp: ALWAYS_SAFE_def)

lemma str_int_chars: "list_all (\<lambda>c. c \<in> set ''-0123456789'') (str (PInt i))"
proof -
  have "list_all (\<lambda>c. c \<in> set ''-0123456789'') (str_nat n)" for n
    using str_nat_digits[of n] by (rule list_all_imp) auto
  then show ?thesis by simp
qed

lemma plain_seg_str:
  assumes "\<And>s. v \<noteq> PStr s"
  shows "plain_seg (str v)"
proof (cases v)
  case PNone
  then show ?thesis by (simp add: plain_seg_def ALWAYS_SAFE_def)
next
  case (PInt i)
  have safe: "list_all (\<lambda>c. c \<in> set ALWAYS_SAFE) (str (PInt i))"
    using str_int_chars[of i] by (rule list_all_imp) (rule sign_digit_safe(1))
  have nodot: "list_all (\<lambda>c. c \<noteq> CHR ''.'') (str (PInt i))"
    using str_int_chars[of i] by (rule list_all_imp) (rule sign_digit_safe(2))
  have ne: "str (PInt i) \<noteq> []" using str_nat_nonempty by simp
  have "str (PInt i) \<noteq> ''.''" "str (PInt i) \<noteq> ''..''"
    using nodot by (auto simp del: str.simps)
  then show ?thesis
    unfolding PInt plain_seg_def using safe ne by (simp del: str.simps)
next
  case (PStr s)
  then show ?thesis using assms by simp
qed

lemma generate_url_id:
  assumes "plain_seg a" "plain_seg m" "plain_seg b"
  shows "generate_url self (a @ ''/'' @ m @ ''/'' @ b) qp =
           Some (API_URL @ a @ ''/'' @ m @ ''/'' @ b
                   @ (if qp = [] then [] else ''?'' @ urlencode qp))"
proof -
  have j: "join ''/'' [a, m, b] = a @ ''/'' @ m @ ''/'' @ b" by simp
  have no_slash: "x \<noteq> ''competitions''" "x \<noteq> ''fixtures''" if "CHR ''/'' \<in> set x" for x
    using that by auto
  have sl: "CHR ''/'' \<in> set (join ''/'' [a, m, b])" by simp
  have segs: "[a, m, b] \<noteq> []" "list_all plain_seg [a, m, b]" using assms by simp_all
  show ?thesis
    using generate_url_plain[OF segs no_slash[OF sl], of self qp] unfolding j
    by (simp only: append_assoc)
qed

lemma generate_url_total:
  assumes "plain_seg p"
  shows "\<exists>u. generate_url self (p @ CHR ''/'' # rest) qp = Some u"
  using urljoin_total[OF assms, of rest] urljoin_total[OF assms, of "rest @ ''/''"]
    urljoin_total[OF assms, of "rest @ ''?'' @ urlencode qp"]
    urljoin_total[OF assms, of "rest @ ''/'' @ ''?'' @ urlencode qp"]
  by (auto simp: generate_url_def Let_def)

section \<open>Lemmas on the methods\<close>

lemma fetch_id:
  assumes "plain_seg a" "plain_seg m" "plain_seg b"
  shows "fetch self respond (a @ ''/'' @ m @ ''/'' @ b) qp w =
           Some (get_json respond
                   (API_URL @ a @ ''/'' @ m @ ''/'' @ b
                      @ (if qp = [] then [] else ''?'' @ urlencode qp))
                   (headers self) w)"
  by (simp only: fetch_def generate_url_id[OF assms] option.case)

lemma fetch_root:
  assumes "action = ''competitions'' \<or> action = ''fixtures''"
  shows "fetch self respond action qp w =
           Some (get_json respond
                   (API_URL @ action @ ''/'' @ (if qp = [] then [] else ''?'' @ urlencode qp))
                   (headers self) w)"
  by (simp only: fetch_def generate_url_root[OF assms] option.case)

lemma plain_words:
  "plain_seg ''competitions''" "plain_seg ''teams''" "plain_seg ''fixtures''"
  "plain_seg ''leagueTable''" "plain_seg ''players''"
  by (simp_all add: plain_seg_def ALWAYS_SAFE_def)

lemma urlencode_one:
  assumes "list_all (\<lambda>c. c \<in> set ALWAYS_SAFE) k" "list_all (\<lambda>c. c \<in> set ALWAYS_SAFE) v"
  shows "urlencode [(k, v)] = k @ ''='' @ v"
  by (simp add: urlencode_def quote_plus_safe[OF assms(1)] quote_plus_safe[OF assms(2)])

lemma safe_words:
  "list_all (\<lambda>c. c \<in> set ALWAYS_SAFE) ''season''"
  "list_all (\<lambda>c. c \<in> set ALWAYS_SAFE) ''matchday''"
  "list_all (\<lambda>c. c \<in> set ALWAYS_SAFE) ''timeFrame''"
  "list_all (\<lambda>c. c \<in> set ALWAYS_SAFE) ''league''"
  "list_all (\<lambda>c. c \<in> set ALWAYS_SAFE) ''venue''"
  "list_all (\<lambda>c. c \<in> set ALWAYS_SAFE) ''home''"
  "list_all (\<lambda>c. c \<in> set ALWAYS_SAFE) ''away''"
  by (simp_all add: ALWAYS_SAFE_def)

lemma str_5: "str (PInt 5) = ''5''" "str (PInt 445) = ''445''"
  by (simp_all add: str_nat.simps)

lemma matchday_5: "re_match matchday_pattern ''5''"
  by (simp add: matchday_match)

lemma lookup_PL: "lookup_competition (loaded rs) (PStr ''PL'') = Inr (PInt 445)"
  by (simp add: lookup_competition_def loaded_def LEAGUE_CODE_def)

lemma four_prefix:
  "(\<exists>a b c d r. s = a # b # c # d # r \<and> P a \<and> P b \<and> P c \<and> P d) =
     (4 \<le> length s \<and> list_all P (take 4 s))"
  by (auto simp: numeral_eq_Suc Suc_le_length_iff)

lemma in_cls_Digit: "in_cls Digit = is_digit"
  by (rule ext) (simp add: is_digit_def)

lemma season_match_prefix: "re_match season_pattern s = begins_with_four_digits s"
  unfolding season_match begins_with_four_digits_def in_cls_Digit by (rule four_prefix)

lemma matchday_match_prefix: "re_match matchday_pattern s = begins_with_digit s"
  unfolding matchday_match begins_with_digit_def in_cls_Digit by (cases s) auto

lemma time_frame_match_prefix: "re_match time_frame_pattern s = time_frame_prefix s"
  unfolding time_frame_match time_frame_prefix_def range_1_9 one_to_nine_def
  by (auto split: list.splits simp del: set_simps)


lemma str_nonempty: "truthy v \<Longrightarrow> str v \<noteq> []"
  using str_nat_nonempty by (cases v) auto

lemma fetch_competitions_sub:
  assumes "plain_seg m"
  shows "fetch self respond (''competitions/'' @ m @ ''/teams'') qp w =
           Some (get_json respond
                   (''http://api.football-data.org/v1/competitions/'' @ m @ ''/teams''
                      @ (if qp = [] then [] else ''?'' @ urlencode qp))
                   (headers self) w)"
    and "fetch self respond (''competitions/'' @ m @ ''/leagueTable'') qp w =
           Some (get_json respond
                   (''http://api.football-data.org/v1/competitions/'' @ m @ ''/leagueTable''
                      @ (if qp = [] then [] else ''?'' @ urlencode qp))
                   (headers self) w)"
    and "fetch self respond (''competitions/'' @ m @ ''/fixtures'') qp w =
           Some (get_json respond
                   (''http://api.football-data.org/v1/competitions/'' @ m @ ''/fixtures''
                      @ (if qp = [] then [] else ''?'' @ urlencode qp))
                   (headers self) w)"
  using fetch_id[OF plain_words(1) assms plain_words(2), of self respond qp w]
    fetch_id[OF plain_words(1) assms plain_words(4), of self respond qp w]
    fetch_id[OF plain_words(1) assms plain_words(3), of self respond qp w]
  by (simp_all add: API_URL_def)

lemma fetch_teams_fixtures:
  assumes "plain_seg m"
  shows "fetch self respond (''teams/'' @ m @ ''/fixtures'') qp w =
           Some (get_json respond
                   (''http://api.football-data.org/v1/teams/'' @ m @ ''/fixtures''
                      @ (if qp = [] then [] else ''?'' @ urlencode qp))
                   (headers self) w)"
  using fetch_id[OF plain_words(2) assms plain_words(3), of self respond qp w]
  by (simp add: API_URL_def)

lemma fetch_roots:
  "fetch self respond ''competitions'' qp w =
     Some (get_json respond
             (''http://api.football-data.org/v1/competitions/''
                @ (if qp = [] then [] else ''?'' @ urlencode qp))
             (headers self) w)"
  "fetch self respond ''fixtures'' qp w =
     Some (get_json respond
             (''http://api.football-data.org/v1/fixtures/''
                @ (if qp = [] then [] else ''?'' @ urlencode qp))
             (headers self) w)"
  using fetch_root[of "''competitions''" self respond qp w]
    fetch_root[of "''fixtures''" self respond qp w]
  by (simp_all add: API_URL_def)

lemma keeps_same: "keeps_table w (Some (out, w))"
  by (simp add: keeps_table_def)

lemma keeps_fetch:
  assumes "plain_seg p"
  shows "keeps_table w (fetch self respond (p @ CHR ''/'' # rest) qp w)"
proof -
  obtain u where "generate_url self (p @ CHR ''/'' # rest) qp = Some u"
    using generate_url_total[OF assms] by blast
  then show ?thesis by (simp add: keeps_table_def fetch_def get_json_def)
qed

lemma keeps_fetch_words:
  "keeps_table w (fetch self respond (''competitions/'' @ rest) qp w)"
  "keeps_table w (fetch self respond (''teams/'' @ rest) qp w)"
  "keeps_table w (fetch self respond (''fixtures/'' @ rest) qp w)"
  "keeps_table w (fetch self respond ''competitions'' qp w)"
  "keeps_table w (fetch self respond ''fixtures'' qp w)"
  using keeps_fetch[OF plain_words(1), of w self respond rest qp]
    keeps_fetch[OF plain_words(2), of w self respond rest qp]
    keeps_fetch[OF plain_words(3), of w self respond rest qp]
  by (simp_all add: fetch_roots keeps_table_def get_json_def)

lemma plain_seg_int: "plain_seg (str (PInt n))"
  by (rule plain_seg_str) simp

lemma lookup_int: "lookup_competition w (PInt n) = Inr (PInt n)"
  by (simp add: lookup_competition_def)

lemma lookup_accepted:
  assumes "accepted_id w competition_id"
  shows "\<exists>c. lookup_competition w competition_id = Inr c"
proof (cases competition_id)
  case (PStr s)
  with assms have "s \<in> fst ` set (league_table w)" by (simp add: accepted_id_def)
  then have "map_of (league_table w) s \<noteq> None" by (simp add: map_of_eq_None_iff)
  then show ?thesis using PStr by (auto simp: lookup_competition_def)
qed (simp_all add: lookup_competition_def)

lemma digits_safe:
  "list_all (\<lambda>c. c \<in> set ALWAYS_SAFE) ''20199''"
  "list_all (\<lambda>c. c \<in> set ALWAYS_SAFE) ''5x''"
  "list_all (\<lambda>c. c \<in> set ALWAYS_SAFE) ''n123''"
  by (simp_all add: ALWAYS_SAFE_def)

lemma key_facts:
  assumes "k \<in> set (map fst LEAGUE_CODE)"
  shows "k \<noteq> []" "list_all (\<lambda>c. c \<in> set ALWAYS_SAFE) k"
  using assms by (auto simp: LEAGUE_CODE_def ALWAYS_SAFE_def)

lemma lookup_plain:
  assumes "lookup_competition w competition_id = Inr c"
  shows "plain_seg (str c)"
proof (cases competition_id)
  case PNone
  with assms have "c = PNone" by (simp add: lookup_competition_def)
  then show ?thesis using plain_seg_str[of PNone] by simp
next
  case (PInt n)
  with assms have "c = PInt n" by (simp add: lookup_competition_def)
  then show ?thesis using plain_seg_int[of n] by simp
next
  case (PStr s)
  with assms obtain n where "c = PInt n"
    by (auto simp: lookup_competition_def split: option.splits)
  then show ?thesis using plain_seg_int[of n] by simp
qed

lemma competitions_sends:
  assumes "\<not> truthy season \<or> begins_with_four_digits (str season)"
  shows "competitions self respond season w
           = Some (get_json respond
                     (''http://api.football-data.org/v1/competitions/''
                        @ query_suffix (optional ''season'' season))
                     (headers self) w)"
  using assms
  by (auto simp: competitions_def season_match_prefix fetch_roots optional_def query_suffix_def)

lemma table_sends:
  assumes "lookup_competition w competition_id = Inr c"
    and "\<not> truthy matchday \<or> begins_with_digit (str matchday)"
  shows "table self respond competition_id matchday w
           = Some (get_json respond
                     (''http://api.football-data.org/v1/competitions/'' @ str c @ ''/leagueTable''
                        @ query_suffix (optional ''matchday'' matchday))
                     (headers self) w)"
proof -
  note f = fetch_competitions_sub(2)[OF lookup_plain[OF assms(1)], simplified]
  show ?thesis
    using assms
    by (auto simp: table_def matchday_match_prefix f optional_def query_suffix_def)
qed

lemma competition_fixtures_sends:
  assumes "lookup_competition w competition_id = Inr c"
    and "\<not> truthy matchday \<or> begins_with_digit (str matchday)"
    and "\<not> truthy time_frame \<or> time_frame_prefix (str time_frame)"
  shows "competition_fixtures self respond competition_id matchday time_frame w
           = Some (get_json respond
                     (''http://api.football-data.org/v1/competitions/'' @ str c @ ''/fixtures''
                        @ query_suffix (optional ''matchday'' matchday
                                          @ optional ''timeFrame'' time_frame))
                     (headers self) w)"
proof -
  note f = fetch_competitions_sub(3)[OF lookup_plain[OF assms(1)], simplified]
  show ?thesis
    using assms
    by (auto simp: competition_fixtures_def matchday_match_prefix time_frame_match_prefix f
          optional_def query_suffix_def)
qed

lemma fixtures_sends:
  assumes "\<not> truthy time_frame \<or> time_frame_prefix (str time_frame)"
    and "\<not> truthy league_code \<or> in_keys w league_code"
  shows "fixtures self respond time_frame league_code w
           = Some (get_json respond
                     (''http://api.football-data.org/v1/fixtures/''
                        @ query_suffix (optional ''timeFrame'' time_frame
                                          @ optional ''league'' league_code))
                     (headers self) w)"
  using assms
  by (auto simp: fixtures_def time_frame_match_prefix fetch_roots optional_def query_suffix_def)

lemma team_fixtures_sends:
  assumes "plain_seg (str team_id)"
    and "\<not> truthy season \<or> begins_with_four_digits (str season)"
    and "\<not> truthy time_frame \<or> time_frame_prefix (str time_frame)"
    and "\<not> truthy venue \<or> home_or_away venue"
  shows "team_fixtures self respond team_id season time_frame venue w
           = Some (get_json respond
                     (''http://api.football-data.org/v1/teams/'' @ str team_id @ ''/fixtures''
                        @ query_suffix (optional ''season'' season
                                          @ optional ''timeFrame'' time_frame
                                          @ optional ''venue'' venue))
                     (headers self) w)"
proof -
  note f = fetch_teams_fixtures[OF assms(1), simplified]
  show ?thesis
    using assms(2-4)
    by (auto simp: team_fixtures_def season_match_prefix time_frame_match_prefix f
          optional_def query_suffix_def)
qed

lemma urlencode_safe:
  assumes "list_all (\<lambda>(k, v). list_all (\<lambda>c. c \<in> set ALWAYS_SAFE) k
                        \<and> list_all (\<lambda>c. c \<in> set ALWAYS_SAFE) v) qp"
  shows "urlencode qp = join ''&'' (map (\<lambda>(k, v). k @ ''='' @ v) qp)"
proof -
  have "map (\<lambda>(k, v). quote_plus k @ ''='' @ quote_plus v) qp = map (\<lambda>(k, v). k @ ''='' @ v) qp"
    using assms by (induction qp) (auto simp: quote_plus_safe)
  then show ?thesis unfolding urlencode_def by (rule arg_cong)
qed

lemma urlencode_examples:
  "urlencode [(''matchday'', ''5''), (''timeFrame'', ''n7'')] = ''matchday=5&timeFrame=n7''"
  "urlencode [(''timeFrame'', ''n7''), (''league'', ''PL'')] = ''timeFrame=n7&league=PL''"
  "urlencode [(''season'', ''2019''), (''timeFrame'', ''n45''), (''venue'', ''home'')]
     = ''season=2019&timeFrame=n45&venue=home''"
  "urlencode [(''timeFrame'', ''n7'')] = ''timeFrame=n7''"
  "urlencode [(''league'', ''PL'')] = ''league=PL''"
  "urlencode [(''matchday'', ''5'')] = ''matchday=5''"
  "urlencode [(''venue'', ''away'')] = ''venue=away''"
  by (simp_all add: urlencode_safe ALWAYS_SAFE_def)

lemma optional_simps:
  "optional k PNone = []" "optional k (PInt 0) = []" "optional k (PStr []) = []"
  "s \<noteq> [] \<Longrightarrow> optional k (PStr s) = [(k, s)]"
  by (simp_all add: optional_def)

lemma falsy_optional:
  assumes "v = PNone \<or> v = PInt 0 \<or> v = PStr ''''"
  shows "\<not> truthy v" "optional k v = []" "\<not> truthy v \<or> P"
  using assms by (auto simp: optional_def)

lemma passes_None: "\<not> truthy PNone \<or> P"
  by simp


lemma home_away:
  assumes "s = ''home'' \<or> s = ''away''"
  shows "\<not> truthy (PStr s) \<or> home_or_away (PStr s)"
    "optional k (PStr s) = [(k, s)]"
    "urlencode [(''venue'', s)] = ''venue='' @ s"
  using assms urlencode_one[OF safe_words(5) safe_words(6)] urlencode_one[OF safe_words(5) safe_words(7)]
  by (auto simp: optional_def home_or_away_def)

lemma league_key:
  assumes "k \<in> set (map fst LEAGUE_CODE)"
  shows "\<not> truthy (PStr k) \<or> in_keys (loaded rs) (PStr k)"
    "optional n (PStr k) = [(n, k)]"
    "urlencode [(''league'', k)] = ''league='' @ k"
  using assms key_facts[OF assms] urlencode_one[OF safe_words(4), of k]
  by (simp_all add: optional_def in_keys_def loaded_def)

lemma str_66: "str (PInt 66) = ''66''"
  by (simp add: str_nat.simps)

section \<open>The claims\<close>

text \<open>
  C1. \<open>table("PL", matchday=5)\<close> on a client made with an API key: the URL built is
  exactly \<open>http://api.football-data.org/v1/competitions/445/leagueTable?matchday=5\<close>,
  and the call adds exactly one request to those sent, with that URL and the header
  \<open>X-Auth-Token\<close> set to the key; its outcome is what the environment answers.
\<close>

theorem table_PL_matchday_5:
  "generate_url (Football_init key) ''competitions/445/leagueTable'' [(''matchday'', ''5'')]
     = Some ''http://api.football-data.org/v1/competitions/445/leagueTable?matchday=5''
   \<and> table (Football_init key) respond (PStr ''PL'') (PInt 5) (loaded rs)
     = Some ((case respond (''http://api.football-data.org/v1/competitions/445/leagueTable?matchday=5'',
                            [(''X-Auth-Token'', key)])
              of Inl e \<Rightarrow> Raised e | Inr j \<Rightarrow> Returned j),
             loaded (rs @ [(''http://api.football-data.org/v1/competitions/445/leagueTable?matchday=5'',
                            [(''X-Auth-Token'', key)])]))"
proof -
  have seg: "plain_seg ''445''" by (simp add: plain_seg_def ALWAYS_SAFE_def)
  have enc: "urlencode [(''matchday'', ''5'')] = ''matchday=5''"
    using urlencode_one[OF safe_words(2), of "''5''"] by (simp add: ALWAYS_SAFE_def)
  have url: "generate_url (Football_init key) ''competitions/445/leagueTable'' [(''matchday'', ''5'')]
     = Some ''http://api.football-data.org/v1/competitions/445/leagueTable?matchday=5''"
    using generate_url_id[OF plain_words(1) seg plain_words(4), of "Football_init key" "[(''matchday'', ''5'')]"]
    by (simp add: enc API_URL_def)
  have "table (Football_init key) respond (PStr ''PL'') (PInt 5) (loaded rs)
     = Some (get_json respond ''http://api.football-data.org/v1/competitions/445/leagueTable?matchday=5''
               [(''X-Auth-Token'', key)] (loaded rs))"
    unfolding table_def lookup_PL using url
    by (simp add: str_5 matchday_5 fetch_def Football_init_def del: str.simps)
  then show ?thesis using url by (simp add: get_json_def loaded_def)
qed

text \<open>
  C2, as stated, fails: the season \<open>20199\<close> is not four decimal digits, yet
  \<open>competitions\<close> sends a request for it, since the pattern is matched at the start of
  the string only; and the empty string is not four decimal digits either, yet it is
  skipped by the guard and the request is sent without a season.
\<close>

theorem season_counterexample:
  "\<not> exactly_four_digits ''20199''
   \<and> competitions (Football_init (PStr ''key'')) offline (PStr ''20199'') (loaded [])
       = Some (Raised (TransportError ''offline''),
               loaded [(''http://api.football-data.org/v1/competitions/?season=20199'',
                        [(''X-Auth-Token'', PStr ''key'')])])
   \<and> \<not> exactly_four_digits ''''
   \<and> competitions (Football_init (PStr ''key'')) offline (PStr '''') (loaded [])
       = Some (Raised (TransportError ''offline''),
               loaded [(''http://api.football-data.org/v1/competitions/'',
                        [(''X-Auth-Token'', PStr ''key'')])])"
proof -
  have m: "re_match season_pattern ''20199''"
    by (simp add: season_match_prefix begins_with_four_digits_def is_digit_def)
  have enc: "urlencode [(''season'', ''20199'')] = ''season=20199''"
    using urlencode_one[OF safe_words(1) digits_safe(1)] by simp
  show ?thesis
    by (simp add: exactly_four_digits_def competitions_def m fetch_roots enc get_json_def
          offline_def loaded_def Football_init_def)
qed

text \<open>
  C2, amended. For every season that is truthy (not None, not 0, not the empty string)
  and whose string form does not begin with four decimal digits, such as \<open>99\<close> and
  \<open>20x9\<close>, \<open>competitions\<close> and \<open>team_fixtures\<close> raise the ValueError of the season check
  and the requests sent are what they were.
\<close>

theorem season_validation:
  assumes "truthy season" "\<not> begins_with_four_digits (str season)"
  shows "competitions self respond season w
           = Some (Raised (ValueError ''season is invalid.''), w)
         \<and> team_fixtures self respond team_id season time_frame venue w
           = Some (Raised (ValueError ''season is invalid.''), w)"
  using assms by (simp add: competitions_def team_fixtures_def season_match_prefix)

theorem season_validation_witness:
  "truthy (PStr ''20x9'') \<and> \<not> begins_with_four_digits (str (PStr ''20x9''))
   \<and> competitions (Football_init PNone) offline (PStr ''20x9'') (loaded [])
       = Some (Raised (ValueError ''season is invalid.''), loaded [])
   \<and> team_fixtures (Football_init PNone) offline (PInt 66) (PStr ''20x9'') PNone PNone (loaded [])
       = Some (Raised (ValueError ''season is invalid.''), loaded [])"
proof -
  have h: "truthy (PStr ''20x9'')" "\<not> begins_with_four_digits (str (PStr ''20x9''))"
    by (simp_all add: begins_with_four_digits_def is_digit_def)
  show ?thesis
    using h season_validation[OF h, of "Football_init PNone" offline "loaded []" "PInt 66" PNone PNone]
    by simp
qed




text \<open>
  C4. Looking up each mnemonic of the league table gives the documented number
  (BSA 444, PL 445, ELC 446, EL1 447, EL2 448, DED 449, FL1 450, FL2 451, BL1 452, BL2 453,
  PD 455, SA 456, PPL 457, DFB 458, SB 459, CL 464, AAL 466), and no method changes the
  table: a call of any of the nine methods, in any state and with any arguments, comes to
  an outcome, and the table is then what it was before.
\<close>

theorem league_code_resolution:
  "lookup_competition (loaded rs) (PStr ''BSA'') = Inr (PInt 444)
   \<and> lookup_competition (loaded rs) (PStr ''PL'') = Inr (PInt 445)
   \<and> lookup_competition (loaded rs) (PStr ''ELC'') = Inr (PInt 446)
   \<and> lookup_competition (loaded rs) (PStr ''EL1'') = Inr (PInt 447)
   \<and> lookup_competition (loaded rs) (PStr ''EL2'') = Inr (PInt 448)
   \<and> lookup_competition (loaded rs) (PStr ''DED'') = Inr (PInt 449)
   \<and> lookup_competition (loaded rs) (PStr ''FL1'') = Inr (PInt 450)
   \<and> lookup_competition (loaded rs) (PStr ''FL2'') = Inr (PInt 451)
   \<and> lookup_competition (loaded rs) (PStr ''BL1'') = Inr (PInt 452)
   \<and> lookup_competition (loaded rs) (PStr ''BL2'') = Inr (PInt 453)
   \<and> lookup_competition (loaded rs) (PStr ''PD'') = Inr (PInt 455)
   \<and> lookup_competition (loaded rs) (PStr ''SA'') = Inr (PInt 456)
   \<and> lookup_competition (loaded rs) (PStr ''PPL'') = Inr (PInt 457)
   \<and> lookup_competition (loaded rs) (PStr ''DFB'') = Inr (PInt 458)
   \<and> lookup_competition (loaded rs) (PStr ''SB'') = Inr (PInt 459)
   \<and> lookup_competition (loaded rs) (PStr ''CL'') = Inr (PInt 464)
   \<and> lookup_competition (loaded rs) (PStr ''AAL'') = Inr (PInt 466)
   \<and> keeps_table w (competitions self respond season w)
   \<and> keeps_table w (teams self respond competition_id w)
   \<and> keeps_table w (table self respond competition_id matchday w)
   \<and> keeps_table w (competition_fixtures self respond competition_id matchday time_frame w)
   \<and> keeps_table w (fixtures self respond time_frame league_code w)
   \<and> keeps_table w (fixture self respond fixture_id w)
   \<and> keeps_table w (team_fixtures self respond team_id season time_frame venue w)
   \<and> keeps_table w (team self respond team_id w)
   \<and> keeps_table w (players self respond team_id w)"
proof -
  have look: "lookup_competition (loaded rs) (PStr k) =
                (case map_of LEAGUE_CODE k of None \<Rightarrow> Inl (KeyError k) | Some n \<Rightarrow> Inr (PInt n))" for k
    by (simp add: lookup_competition_def loaded_def)
  note keeps = keeps_same keeps_fetch_words[simplified]
  have k1: "keeps_table w (competitions self respond season w)"
    by (simp add: competitions_def keeps)
  have k2: "keeps_table w (teams self respond competition_id w)"
    by (simp add: teams_def keeps split: sum.split)
  have k3: "keeps_table w (table self respond competition_id matchday w)"
    by (simp add: table_def keeps split: sum.split)
  have k4: "keeps_table w (competition_fixtures self respond competition_id matchday time_frame w)"
    by (simp add: competition_fixtures_def Let_def keeps split: sum.split)
  have k5: "keeps_table w (fixtures self respond time_frame league_code w)"
    by (simp add: fixtures_def Let_def keeps)
  have k6: "keeps_table w (fixture self respond fixture_id w)"
    by (simp add: fixture_def keeps)
  have k7: "keeps_table w (team_fixtures self respond team_id season time_frame venue w)"
    by (simp add: team_fixtures_def Let_def keeps)
  have k8: "keeps_table w (team self respond team_id w)"
    by (simp add: team_def keeps)
  have k9: "keeps_table w (players self respond team_id w)"
    by (simp add: players_def keeps)
  show ?thesis
    unfolding look using k1 k2 k3 k4 k5 k6 k7 k8 k9 by (simp add: LEAGUE_CODE_def)
qed

text \<open>
  C5. For every string that is not a key of the league table, \<open>teams\<close>, \<open>table\<close> and
  \<open>competition_fixtures\<close> come to the KeyError of the lookup, returned as the value, and
  the requests sent are what they were: no GET is issued.
\<close>

theorem unknown_mnemonic_lookup_error:
  assumes "s \<notin> set (map fst LEAGUE_CODE)"
  shows "teams self respond (PStr s) (loaded rs) = Some (Returned_error (KeyError s), loaded rs)
         \<and> table self respond (PStr s) matchday (loaded rs)
             = Some (Returned_error (KeyError s), loaded rs)
         \<and> competition_fixtures self respond (PStr s) matchday time_frame (loaded rs)
             = Some (Returned_error (KeyError s), loaded rs)"
proof -
  have "map_of LEAGUE_CODE s = None"
    using assms by (simp add: map_of_eq_None_iff)
  then have "lookup_competition (loaded rs) (PStr s) = Inl (KeyError s)"
    by (simp add: lookup_competition_def loaded_def)
  then show ?thesis
    by (simp add: teams_def table_def competition_fixtures_def)
qed

theorem unknown_mnemonic_lookup_error_witness:
  "''XYZ'' \<notin> set (map fst LEAGUE_CODE)
   \<and> teams (Football_init PNone) offline (PStr ''XYZ'') (loaded [])
       = Some (Returned_error (KeyError ''XYZ''), loaded [])
   \<and> table (Football_init PNone) offline (PStr ''XYZ'') (PInt 5) (loaded [])
       = Some (Returned_error (KeyError ''XYZ''), loaded [])
   \<and> competition_fixtures (Football_init PNone) offline (PStr ''XYZ'') (PInt 5) (PStr ''n7'')
       (loaded [])
       = Some (Returned_error (KeyError ''XYZ''), loaded [])"
proof -
  have h: "''XYZ'' \<notin> set (map fst LEAGUE_CODE)" by (simp add: LEAGUE_CODE_def)
  show ?thesis
    using h unknown_mnemonic_lookup_error[OF h, of "Football_init PNone" offline "[]" "PInt 5" "PStr ''n7''"]
    by simp
qed

text \<open>
  C6. The URL builder takes an action and the query parameters and yields a URL, with no
  state read or written: its result does not depend on the client it is called on. For
  the actions \<open>competitions\<close> and \<open>fixtures\<close> the URL is the base URL, the action, a slash,
  and then, if there are parameters, a question mark and the encoded parameters.
\<close>

theorem generate_url_pure_and_slashed:
  "generate_url self action query_params = generate_url self' action query_params
   \<and> generate_url self ''competitions'' query_params
       = Some (''http://api.football-data.org/v1/competitions/''
                 @ (if query_params = [] then [] else ''?'' @ urlencode query_params))
   \<and> generate_url self ''fixtures'' query_params
       = Some (''http://api.football-data.org/v1/fixtures/''
                 @ (if query_params = [] then [] else ''?'' @ urlencode query_params))"
proof -
  have "generate_url self action query_params = generate_url self' action query_params"
    by (simp add: generate_url_def)
  moreover have "generate_url self ''competitions'' query_params
       = Some (''http://api.football-data.org/v1/competitions/''
                 @ (if query_params = [] then [] else ''?'' @ urlencode query_params))"
    using generate_url_root[of "''competitions''" self query_params] by (simp add: API_URL_def)
  moreover have "generate_url self ''fixtures'' query_params
       = Some (''http://api.football-data.org/v1/fixtures/''
                 @ (if query_params = [] then [] else ''?'' @ urlencode query_params))"
    using generate_url_root[of "''fixtures''" self query_params] by (simp add: API_URL_def)
  ultimately show ?thesis by blast
qed

text \<open>
  C7, as stated, fails: the empty string is not one or more decimal digits, yet it is
  skipped by the guard and \<open>table\<close> sends its request without a matchday; and \<open>5x\<close> is not
  one or more decimal digits, yet \<open>table\<close> sends it on, since the pattern is matched at
  the start of the string only.
\<close>

theorem matchday_counterexample:
  "\<not> digits_only ''''
   \<and> table (Football_init (PStr ''key'')) offline (PInt 445) (PStr '''') (loaded [])
       = Some (Raised (TransportError ''offline''),
               loaded [(''http://api.football-data.org/v1/competitions/445/leagueTable'',
                        [(''X-Auth-Token'', PStr ''key'')])])
   \<and> \<not> digits_only ''5x''
   \<and> table (Football_init (PStr ''key'')) offline (PInt 445) (PStr ''5x'') (loaded [])
       = Some (Raised (TransportError ''offline''),
               loaded [(''http://api.football-data.org/v1/competitions/445/leagueTable?matchday=5x'',
                        [(''X-Auth-Token'', PStr ''key'')])])"
proof -
  have m: "re_match matchday_pattern ''5x''"
    by (simp add: matchday_match_prefix begins_with_digit_def is_digit_def)
  have enc: "urlencode [(''matchday'', ''5x'')] = ''matchday=5x''"
    using urlencode_one[OF safe_words(2) digits_safe(2)] by simp
  have seg: "plain_seg ''445''" by (simp add: plain_seg_def ALWAYS_SAFE_def)
  have s: "str (PInt 445) = ''445''" by (simp add: str_nat.simps)
  show ?thesis
    unfolding table_def lookup_int sum.case s
    using fetch_competitions_sub(2)[OF seg, of "Football_init (PStr ''key'')" offline "[]" "loaded []"]
      fetch_competitions_sub(2)[OF seg, of "Football_init (PStr ''key'')" offline
        "[(''matchday'', ''5x'')]" "loaded []"]
    by (simp add: digits_only_def is_digit_def m enc get_json_def
          offline_def loaded_def Football_init_def)
qed

text \<open>
  C7, amended. For every matchday that is truthy and whose string form does not begin
  with a decimal digit, \<open>table\<close> and \<open>competition_fixtures\<close>, called with a competition
  identifier that the lookup accepts (a value that is not a string, or a key of the
  league table), raise the ValueError of the matchday check and the requests sent are
  what they were.
\<close>

theorem matchday_validation:
  assumes "truthy matchday" "\<not> begins_with_digit (str matchday)"
    and "accepted_id w competition_id"
  shows "table self respond competition_id matchday w
           = Some (Raised (ValueError ''matchday is invalid.''), w)
         \<and> competition_fixtures self respond competition_id matchday time_frame w
           = Some (Raised (ValueError ''matchday is invalid.''), w)"
proof -
  obtain c where "lookup_competition w competition_id = Inr c"
    using lookup_accepted[OF assms(3)] by blast
  then show ?thesis
    using assms(1,2) by (simp add: table_def competition_fixtures_def matchday_match_prefix)
qed

theorem matchday_validation_witness:
  "truthy (PStr ''x5'') \<and> \<not> begins_with_digit (str (PStr ''x5''))
   \<and> accepted_id (loaded []) (PStr ''PL'')
   \<and> table (Football_init PNone) offline (PStr ''PL'') (PStr ''x5'') (loaded [])
       = Some (Raised (ValueError ''matchday is invalid.''), loaded [])
   \<and> competition_fixtures (Football_init PNone) offline (PStr ''PL'') (PStr ''x5'') PNone (loaded [])
       = Some (Raised (ValueError ''matchday is invalid.''), loaded [])"
proof -
  have h: "truthy (PStr ''x5'')" "\<not> begins_with_digit (str (PStr ''x5''))"
    "accepted_id (loaded []) (PStr ''PL'')"
    by (simp_all add: begins_with_digit_def is_digit_def accepted_id_def loaded_def LEAGUE_CODE_def)
  show ?thesis
    using h matchday_validation[OF h, of "Football_init PNone" offline PNone]
    by simp
qed

text \<open>
  C8, as stated, fails: the empty string is a venue other than \<open>home\<close> and \<open>away\<close>, yet
  it is skipped by the guard and \<open>team_fixtures\<close> sends its request without a venue.
\<close>

theorem venue_counterexample:
  "\<not> home_or_away (PStr '''')
   \<and> team_fixtures (Football_init (PStr ''key'')) offline (PInt 66) PNone PNone (PStr '''')
         (loaded [])
       = Some (Raised (TransportError ''offline''),
               loaded [(''http://api.football-data.org/v1/teams/66/fixtures'',
                        [(''X-Auth-Token'', PStr ''key'')])])"
proof -
  have s: "str (PInt 66) = ''66''" by (simp add: str_nat.simps)
  have seg: "plain_seg ''66''" by (simp add: plain_seg_def ALWAYS_SAFE_def)
  show ?thesis
    unfolding team_fixtures_def s
    using fetch_teams_fixtures[OF seg, of "Football_init (PStr ''key'')" offline "[]" "loaded []"]
    by (simp add: home_or_away_def get_json_def offline_def loaded_def Football_init_def)
qed

text \<open>
  C8, amended. For every venue that is truthy and is neither the string \<open>home\<close> nor the
  string \<open>away\<close>, \<open>team_fixtures\<close> raises a ValueError and the requests sent are what they
  were. The error is that of the first check that fails: the season's when the season is
  truthy and does not begin with four decimal digits; else the time frame's when the time
  frame is truthy and does not begin with p, or with n and a digit from 1 to 9; else
  \<open>venue is invalid.\<close> For \<open>home\<close> and \<open>away\<close>, a team whose string form is a plain path
  segment, a season that is falsy or begins with four decimal digits and a time frame
  that is falsy or begins as said, the request is sent and its query is the encoded
  season, if truthy, the time frame, if truthy, and the venue, in this order; with no
  season and no time frame the query is \<open>venue=home\<close> or \<open>venue=away\<close>.
\<close>

theorem venue_validation:
  "(truthy venue \<and> \<not> home_or_away venue \<longrightarrow>
      team_fixtures self respond team_id season time_frame venue w
        = Some (Raised (ValueError
                  (if truthy season \<and> \<not> begins_with_four_digits (str season)
                   then ''season is invalid.''
                   else if truthy time_frame \<and> \<not> time_frame_prefix (str time_frame)
                   then ''time_frame is invalid.''
                   else ''venue is invalid.'')), w)
      \<and> team_fixtures self respond team_id PNone PNone venue w
        = Some (Raised (ValueError ''venue is invalid.''), w)
      \<and> (\<exists>msg. team_fixtures self respond team_id season time_frame venue w
                  = Some (Raised (ValueError msg), w)))
   \<and> (s = ''home'' \<or> s = ''away'' \<longrightarrow>
      team_fixtures self respond (PInt n) PNone PNone (PStr s) w
        = Some (get_json respond
                  (''http://api.football-data.org/v1/teams/'' @ str (PInt n)
                     @ ''/fixtures?venue='' @ s)
                  (headers self) w)
      \<and> (plain_seg (str team_id)
           \<and> (\<not> truthy season \<or> begins_with_four_digits (str season))
           \<and> (\<not> truthy time_frame \<or> time_frame_prefix (str time_frame)) \<longrightarrow>
          team_fixtures self respond team_id season time_frame (PStr s) w
            = Some (get_json respond
                      (''http://api.football-data.org/v1/teams/'' @ str team_id @ ''/fixtures?''
                         @ urlencode (optional ''season'' season
                                        @ optional ''timeFrame'' time_frame @ [(''venue'', s)]))
                      (headers self) w)))"
  apply (intro conjI impI)
  subgoal premises p
    using p by (auto simp: team_fixtures_def season_match_prefix time_frame_match_prefix)
  subgoal premises p
    using p by (simp add: team_fixtures_def)
  subgoal premises p
    using p by (simp add: team_fixtures_def)
  subgoal premises p
    by (simp add: team_fixtures_sends[OF plain_seg_int passes_None passes_None home_away(1)[OF p]]
          home_away(2,3)[OF p] optional_simps query_suffix_def del: str.simps(2))
  subgoal premises p
    by (simp add: team_fixtures_sends[OF p(2)[THEN conjunct1]
            p(2)[THEN conjunct2, THEN conjunct1] p(2)[THEN conjunct2, THEN conjunct2]
            home_away(1)[OF p(1)]]
          home_away(2)[OF p(1)] query_suffix_def)
  done

theorem venue_validation_witness:
  "truthy (PStr ''Home'') \<and> \<not> home_or_away (PStr ''Home'')
   \<and> team_fixtures (Football_init (PStr ''key'')) offline (PInt 66) (PStr ''2019'')
         (PStr ''n45'') (PStr ''Home'') (loaded [])
       = Some (Raised (ValueError ''venue is invalid.''), loaded [])
   \<and> team_fixtures (Football_init (PStr ''key'')) offline (PInt 66) (PStr ''2019'')
         (PStr ''x5'') (PStr ''Home'') (loaded [])
       = Some (Raised (ValueError ''time_frame is invalid.''), loaded [])
   \<and> team_fixtures (Football_init (PStr ''key'')) offline (PInt 66) PNone PNone (PStr ''Home'')
         (loaded [])
       = Some (Raised (ValueError ''venue is invalid.''), loaded [])
   \<and> plain_seg (str (PInt 66))
   \<and> begins_with_four_digits (str (PStr ''2019''))
   \<and> time_frame_prefix (str (PStr ''n45''))
   \<and> team_fixtures (Football_init (PStr ''key'')) offline (PInt 66) (PStr ''2019'')
         (PStr ''n45'') (PStr ''home'') (loaded [])
       = Some (Raised (TransportError ''offline''),
               loaded [(''http://api.football-data.org/v1/teams/66/fixtures?season=2019&timeFrame=n45&venue=home'',
                        [(''X-Auth-Token'', PStr ''key'')])])
   \<and> team_fixtures (Football_init (PStr ''key'')) offline (PInt 445) PNone PNone (PStr ''away'')
         (loaded [])
       = Some (Raised (TransportError ''offline''),
               loaded [(''http://api.football-data.org/v1/teams/445/fixtures?venue=away'',
                        [(''X-Auth-Token'', PStr ''key'')])])"
proof -
  have h: "truthy (PStr ''Home'') \<and> \<not> home_or_away (PStr ''Home'')"
    by (simp add: home_or_away_def)
  have g: "plain_seg (str (PInt 66))" "begins_with_four_digits (str (PStr ''2019''))"
    "time_frame_prefix (str (PStr ''n45''))"
    by (simp_all add: str_66 plain_seg_def ALWAYS_SAFE_def begins_with_four_digits_def
          is_digit_def time_frame_prefix_def one_to_nine_def del: str.simps(2))
  have x: "\<not> time_frame_prefix (str (PStr ''x5''))"
    by (simp add: time_frame_prefix_def)
  note t1 = venue_validation[where venue = "PStr ''Home''"
      and self = "Football_init (PStr ''key'')" and respond = offline and w = "loaded []"
      and team_id = "PInt 66" and season = "PStr ''2019''" and time_frame = "PStr ''n45''"
      and s = "''home''" and n = 445]
  note t2 = venue_validation[where venue = "PStr ''Home''"
      and self = "Football_init (PStr ''key'')" and respond = offline and w = "loaded []"
      and team_id = "PInt 66" and season = "PStr ''2019''" and time_frame = "PStr ''x5''"
      and s = "''away''" and n = 445]
  have a1: "team_fixtures (Football_init (PStr ''key'')) offline (PInt 66) (PStr ''2019'')
         (PStr ''n45'') (PStr ''Home'') (loaded [])
       = Some (Raised (ValueError
                  (if truthy (PStr ''2019'') \<and> \<not> begins_with_four_digits (str (PStr ''2019''))
                   then ''season is invalid.''
                   else if truthy (PStr ''n45'') \<and> \<not> time_frame_prefix (str (PStr ''n45''))
                   then ''time_frame is invalid.''
                   else ''venue is invalid.'')), loaded [])"
    "team_fixtures (Football_init (PStr ''key'')) offline (PInt 66) PNone PNone (PStr ''Home'')
         (loaded [])
       = Some (Raised (ValueError ''venue is invalid.''), loaded [])"
    using t1 h by blast+
  have a2: "team_fixtures (Football_init (PStr ''key'')) offline (PInt 66) (PStr ''2019'')
         (PStr ''x5'') (PStr ''Home'') (loaded [])
       = Some (Raised (ValueError
                  (if truthy (PStr ''2019'') \<and> \<not> begins_with_four_digits (str (PStr ''2019''))
                   then ''season is invalid.''
                   else if truthy (PStr ''x5'') \<and> \<not> time_frame_prefix (str (PStr ''x5''))
                   then ''time_frame is invalid.''
                   else ''venue is invalid.'')), loaded [])"
    using t2 h by blast
  have b1: "team_fixtures (Football_init (PStr ''key'')) offline (PInt 66) (PStr ''2019'')
         (PStr ''n45'') (PStr ''home'') (loaded [])
        = Some (get_json offline
                  (''http://api.football-data.org/v1/teams/'' @ str (PInt 66) @ ''/fixtures?''
                     @ urlencode (optional ''season'' (PStr ''2019'')
                                    @ optional ''timeFrame'' (PStr ''n45'') @ [(''venue'', ''home'')]))
                  (headers (Football_init (PStr ''key''))) (loaded []))"
    using t1 g by blast
  have b2: "team_fixtures (Football_init (PStr ''key'')) offline (PInt 445) PNone PNone
         (PStr ''away'') (loaded [])
       = Some (get_json offline
                  (''http://api.football-data.org/v1/teams/'' @ str (PInt 445)
                     @ ''/fixtures?venue='' @ ''away'')
                  (headers (Football_init (PStr ''key''))) (loaded []))"
    using t2 by blast
  have o: "optional ''season'' (PStr ''2019'') = [(''season'', ''2019'')]"
    "optional ''timeFrame'' (PStr ''n45'') = [(''timeFrame'', ''n45'')]"
    by (simp_all add: optional_def)
  show ?thesis
    unfolding a1 a2 b1 b2 o
    using h g x
    by (simp add: str_5 str_66 urlencode_examples get_json_def offline_def
          loaded_def Football_init_def del: str.simps(2))
qed

text \<open>
  C9, as stated, fails: the empty string is not a key of the league table, yet it is
  skipped by the guard and \<open>fixtures\<close> sends its request without a league.
\<close>

theorem league_code_counterexample:
  "\<not> in_keys (loaded []) (PStr '''')
   \<and> fixtures (Football_init (PStr ''key'')) offline PNone (PStr '''') (loaded [])
       = Some (Raised (TransportError ''offline''),
               loaded [(''http://api.football-data.org/v1/fixtures/'',
                        [(''X-Auth-Token'', PStr ''key'')])])"
  by (simp add: in_keys_def LEAGUE_CODE_def fixtures_def fetch_roots get_json_def offline_def
        loaded_def Football_init_def)

text \<open>
  C9, amended. For every league code that is truthy and is not a key of the league
  table, \<open>fixtures\<close> raises a ValueError and the requests sent are what they were. The
  error is that of the first check that fails: the time frame's when the time frame is
  truthy and does not begin with p, or with n and a digit from 1 to 9; else
  \<open>league_code is invalid.\<close> For a key of the league table and a time frame that is falsy
  or begins as said, the request is sent and its query is the encoded time frame, if
  truthy, and then the league; with no time frame the query is \<open>league=k\<close>. The same
  holds in every state of the table, for a truthy value that is one of its keys.
\<close>

theorem league_code_validation:
  "(truthy league_code \<and> \<not> in_keys w league_code \<longrightarrow>
      fixtures self respond time_frame league_code w
        = Some (Raised (ValueError
                  (if truthy time_frame \<and> \<not> time_frame_prefix (str time_frame)
                   then ''time_frame is invalid.''
                   else ''league_code is invalid.'')), w)
      \<and> fixtures self respond PNone league_code w
        = Some (Raised (ValueError ''league_code is invalid.''), w)
      \<and> (\<exists>msg. fixtures self respond time_frame league_code w
                  = Some (Raised (ValueError msg), w)))
   \<and> (k \<in> set (map fst LEAGUE_CODE) \<longrightarrow>
      fixtures self respond PNone (PStr k) (loaded rs)
        = Some (get_json respond (''http://api.football-data.org/v1/fixtures/?league='' @ k)
                  (headers self) (loaded rs))
      \<and> ((\<not> truthy time_frame \<or> time_frame_prefix (str time_frame)) \<longrightarrow>
          fixtures self respond time_frame (PStr k) (loaded rs)
            = Some (get_json respond
                      (''http://api.football-data.org/v1/fixtures/?''
                         @ urlencode (optional ''timeFrame'' time_frame @ [(''league'', k)]))
                      (headers self) (loaded rs))))
   \<and> (truthy code \<and> in_keys w code
        \<and> (\<not> truthy time_frame \<or> time_frame_prefix (str time_frame)) \<longrightarrow>
      fixtures self respond time_frame code w
        = Some (get_json respond
                  (''http://api.football-data.org/v1/fixtures/?''
                     @ urlencode (optional ''timeFrame'' time_frame @ [(''league'', str code)]))
                  (headers self) w))"
  apply (intro conjI impI)
  subgoal premises p
    using p by (auto simp: fixtures_def time_frame_match_prefix)
  subgoal premises p
    using p by (simp add: fixtures_def)
  subgoal premises p
    using p by (simp add: fixtures_def)
  subgoal premises p
    by (simp add: fixtures_sends[OF passes_None league_key(1)[OF p]]
          league_key(2,3)[OF p] optional_simps query_suffix_def)
  subgoal premises p
    by (simp add: fixtures_sends[OF p(2) league_key(1)[OF p(1)]]
          league_key(2)[OF p(1)] query_suffix_def)
  subgoal premises p
    using p
    by (simp add: fixtures_sends[OF p[THEN conjunct2, THEN conjunct2]
            disjI2[OF p[THEN conjunct2, THEN conjunct1]]]
          optional_def query_suffix_def)
  done

theorem league_code_validation_witness:
  "truthy (PStr ''XYZ'') \<and> \<not> in_keys (loaded []) (PStr ''XYZ'')
   \<and> fixtures (Football_init (PStr ''key'')) offline (PStr ''n7'') (PStr ''XYZ'') (loaded [])
       = Some (Raised (ValueError ''league_code is invalid.''), loaded [])
   \<and> fixtures (Football_init (PStr ''key'')) offline (PStr ''x5'') (PStr ''XYZ'') (loaded [])
       = Some (Raised (ValueError ''time_frame is invalid.''), loaded [])
   \<and> fixtures (Football_init (PStr ''key'')) offline PNone (PStr ''XYZ'') (loaded [])
       = Some (Raised (ValueError ''league_code is invalid.''), loaded [])
   \<and> ''PL'' \<in> set (map fst LEAGUE_CODE)
   \<and> time_frame_prefix (str (PStr ''n7''))
   \<and> truthy (PStr ''PL'') \<and> in_keys (loaded []) (PStr ''PL'')
   \<and> fixtures (Football_init (PStr ''key'')) offline PNone (PStr ''PL'') (loaded [])
       = Some (Raised (TransportError ''offline''),
               loaded [(''http://api.football-data.org/v1/fixtures/?league=PL'',
                        [(''X-Auth-Token'', PStr ''key'')])])
   \<and> fixtures (Football_init (PStr ''key'')) offline (PStr ''n7'') (PStr ''PL'') (loaded [])
       = Some (Raised (TransportError ''offline''),
               loaded [(''http://api.football-data.org/v1/fixtures/?timeFrame=n7&league=PL'',
                        [(''X-Auth-Token'', PStr ''key'')])])"
proof -
  have h: "truthy (PStr ''XYZ'') \<and> \<not> in_keys (loaded []) (PStr ''XYZ'')"
    by (simp add: in_keys_def loaded_def LEAGUE_CODE_def)
  have k: "''PL'' \<in> set (map fst LEAGUE_CODE)"
    by (simp add: LEAGUE_CODE_def)
  have g: "time_frame_prefix (str (PStr ''n7''))" "truthy (PStr ''PL'')"
    "in_keys (loaded []) (PStr ''PL'')"
    by (simp_all add: time_frame_prefix_def one_to_nine_def in_keys_def loaded_def LEAGUE_CODE_def)
  have x: "\<not> time_frame_prefix (str (PStr ''x5''))"
    by (simp add: time_frame_prefix_def)
  note t1 = league_code_validation[where league_code = "PStr ''XYZ''"
      and self = "Football_init (PStr ''key'')" and respond = offline and w = "loaded []"
      and time_frame = "PStr ''n7''" and k = "''PL''" and rs = "[]" and code = "PStr ''PL''"]
  note t2 = league_code_validation[where league_code = "PStr ''XYZ''"
      and self = "Football_init (PStr ''key'')" and respond = offline and w = "loaded []"
      and time_frame = "PStr ''x5''" and k = "''PL''" and rs = "[]" and code = "PStr ''PL''"]
  have a1: "fixtures (Football_init (PStr ''key'')) offline (PStr ''n7'') (PStr ''XYZ'') (loaded [])
       = Some (Raised (ValueError
                  (if truthy (PStr ''n7'') \<and> \<not> time_frame_prefix (str (PStr ''n7''))
                   then ''time_frame is invalid.''
                   else ''league_code is invalid.'')), loaded [])"
    "fixtures (Football_init (PStr ''key'')) offline PNone (PStr ''XYZ'') (loaded [])
       = Some (Raised (ValueError ''league_code is invalid.''), loaded [])"
    using t1 h by blast+
  have a2: "fixtures (Football_init (PStr ''key'')) offline (PStr ''x5'') (PStr ''XYZ'') (loaded [])
       = Some (Raised (ValueError
                  (if truthy (PStr ''x5'') \<and> \<not> time_frame_prefix (str (PStr ''x5''))
                   then ''time_frame is invalid.''
                   else ''league_code is invalid.'')), loaded [])"
    using t2 h by blast
  have b1: "fixtures (Football_init (PStr ''key'')) offline PNone (PStr ''PL'') (loaded [])
       = Some (get_json offline (''http://api.football-data.org/v1/fixtures/?league='' @ ''PL'')
                  (headers (Football_init (PStr ''key''))) (loaded []))"
    using t1 k by blast
  have b2: "fixtures (Football_init (PStr ''key'')) offline (PStr ''n7'') (PStr ''PL'') (loaded [])
       = Some (get_json offline
                 (''http://api.football-data.org/v1/fixtures/?''
                    @ urlencode (optional ''timeFrame'' (PStr ''n7'') @ [(''league'', ''PL'')]))
                 (headers (Football_init (PStr ''key''))) (loaded []))"
    using t1 k g by blast
  have o: "optional ''timeFrame'' (PStr ''n7'') = [(''timeFrame'', ''n7'')]"
    by (simp add: optional_def)
  show ?thesis
    unfolding a1 a2 b1 b2 o
    using h k g x
    by (simp add: urlencode_examples get_json_def offline_def loaded_def Football_init_def)
qed

text \<open>
  C10. An optional parameter that is None, the integer 0 or the empty string is skipped
  by the guard of its check: no validation error is raised for it and it is left out of
  the query. Every method does with such a value what it does when the parameter is left
  out, and, as long as the other parameters pass their own checks (the competition is
  resolved by the lookup, the team's string form is a plain path segment, each other
  optional parameter is falsy or accepted by its check), the request is sent with a URL
  whose query holds the other truthy parameters only. So \<open>competitions\<close>, \<open>table\<close>,
  \<open>competition_fixtures\<close>, \<open>fixtures\<close> and \<open>team_fixtures\<close>, called with such a value and
  nothing else, send one request whose URL has no query string.
\<close>

theorem falsy_parameter_skipped:
  assumes "v = PNone \<or> v = PInt 0 \<or> v = PStr ''''"
  shows "competitions self respond v w = competitions self respond PNone w
   \<and> table self respond competition_id v w = table self respond competition_id PNone w
   \<and> competition_fixtures self respond competition_id v time_frame w
       = competition_fixtures self respond competition_id PNone time_frame w
   \<and> competition_fixtures self respond competition_id matchday v w
       = competition_fixtures self respond competition_id matchday PNone w
   \<and> fixtures self respond v league_code w = fixtures self respond PNone league_code w
   \<and> fixtures self respond time_frame v w = fixtures self respond time_frame PNone w
   \<and> team_fixtures self respond team_id v time_frame venue w
       = team_fixtures self respond team_id PNone time_frame venue w
   \<and> team_fixtures self respond team_id season v venue w
       = team_fixtures self respond team_id season PNone venue w
   \<and> team_fixtures self respond team_id season time_frame v w
       = team_fixtures self respond team_id season time_frame PNone w
   \<and> competitions self respond v w
       = Some (get_json respond ''http://api.football-data.org/v1/competitions/''
                 (headers self) w)
   \<and> table self respond (PInt n) v w
       = Some (get_json respond
                 (''http://api.football-data.org/v1/competitions/'' @ str (PInt n)
                    @ ''/leagueTable'')
                 (headers self) w)
   \<and> team_fixtures self respond (PInt n) PNone PNone v w
       = Some (get_json respond
                 (''http://api.football-data.org/v1/teams/'' @ str (PInt n) @ ''/fixtures'')
                 (headers self) w)
   \<and> team_fixtures self respond (PInt n) v PNone PNone w
       = Some (get_json respond
                 (''http://api.football-data.org/v1/teams/'' @ str (PInt n) @ ''/fixtures'')
                 (headers self) w)
   \<and> team_fixtures self respond (PInt n) PNone v PNone w
       = Some (get_json respond
                 (''http://api.football-data.org/v1/teams/'' @ str (PInt n) @ ''/fixtures'')
                 (headers self) w)
   \<and> competition_fixtures self respond (PInt n) v PNone w
       = Some (get_json respond
                 (''http://api.football-data.org/v1/competitions/'' @ str (PInt n)
                    @ ''/fixtures'')
                 (headers self) w)
   \<and> competition_fixtures self respond (PInt n) PNone v w
       = Some (get_json respond
                 (''http://api.football-data.org/v1/competitions/'' @ str (PInt n)
                    @ ''/fixtures'')
                 (headers self) w)
   \<and> fixtures self respond v PNone w
       = Some (get_json respond ''http://api.football-data.org/v1/fixtures/'' (headers self) w)
   \<and> fixtures self respond PNone v w
       = Some (get_json respond ''http://api.football-data.org/v1/fixtures/'' (headers self) w)
   \<and> (lookup_competition w competition_id = Inr c \<longrightarrow>
        table self respond competition_id v w
          = Some (get_json respond
                    (''http://api.football-data.org/v1/competitions/'' @ str c
                       @ ''/leagueTable'')
                    (headers self) w))
   \<and> (lookup_competition w competition_id = Inr c
        \<and> (\<not> truthy time_frame \<or> time_frame_prefix (str time_frame)) \<longrightarrow>
        competition_fixtures self respond competition_id v time_frame w
          = Some (get_json respond
                    (''http://api.football-data.org/v1/competitions/'' @ str c @ ''/fixtures''
                       @ query_suffix (optional ''timeFrame'' time_frame))
                    (headers self) w))
   \<and> (lookup_competition w competition_id = Inr c
        \<and> (\<not> truthy matchday \<or> begins_with_digit (str matchday)) \<longrightarrow>
        competition_fixtures self respond competition_id matchday v w
          = Some (get_json respond
                    (''http://api.football-data.org/v1/competitions/'' @ str c @ ''/fixtures''
                       @ query_suffix (optional ''matchday'' matchday))
                    (headers self) w))
   \<and> ((\<not> truthy league_code \<or> in_keys w league_code) \<longrightarrow>
        fixtures self respond v league_code w
          = Some (get_json respond
                    (''http://api.football-data.org/v1/fixtures/''
                       @ query_suffix (optional ''league'' league_code))
                    (headers self) w))
   \<and> ((\<not> truthy time_frame \<or> time_frame_prefix (str time_frame)) \<longrightarrow>
        fixtures self respond time_frame v w
          = Some (get_json respond
                    (''http://api.football-data.org/v1/fixtures/''
                       @ query_suffix (optional ''timeFrame'' time_frame))
                    (headers self) w))
   \<and> (plain_seg (str team_id)
        \<and> (\<not> truthy time_frame \<or> time_frame_prefix (str time_frame))
        \<and> (\<not> truthy venue \<or> home_or_away venue) \<longrightarrow>
        team_fixtures self respond team_id v time_frame venue w
          = Some (get_json respond
                    (''http://api.football-data.org/v1/teams/'' @ str team_id @ ''/fixtures''
                       @ query_suffix (optional ''timeFrame'' time_frame
                                         @ optional ''venue'' venue))
                    (headers self) w))
   \<and> (plain_seg (str team_id)
        \<and> (\<not> truthy season \<or> begins_with_four_digits (str season))
        \<and> (\<not> truthy venue \<or> home_or_away venue) \<longrightarrow>
        team_fixtures self respond team_id season v venue w
          = Some (get_json respond
                    (''http://api.football-data.org/v1/teams/'' @ str team_id @ ''/fixtures''
                       @ query_suffix (optional ''season'' season @ optional ''venue'' venue))
                    (headers self) w))
   \<and> (plain_seg (str team_id)
        \<and> (\<not> truthy season \<or> begins_with_four_digits (str season))
        \<and> (\<not> truthy time_frame \<or> time_frame_prefix (str time_frame)) \<longrightarrow>
        team_fixtures self respond team_id season time_frame v w
          = Some (get_json respond
                    (''http://api.football-data.org/v1/teams/'' @ str team_id @ ''/fixtures''
                       @ query_suffix (optional ''season'' season
                                         @ optional ''timeFrame'' time_frame))
                    (headers self) w))"
proof -
  note f = falsy_optional(1)[OF assms]
  note o = falsy_optional(2)[OF assms]
  note fo = falsy_optional(3)[OF assms]
  note q = optional_simps query_suffix_def
  show ?thesis
    apply (intro conjI impI)
    subgoal using f by (simp add: competitions_def)
    subgoal using f by (simp add: table_def split: sum.split)
    subgoal using f by (simp add: competition_fixtures_def split: sum.split)
    subgoal using f by (simp add: competition_fixtures_def split: sum.split)
    subgoal using f by (simp add: fixtures_def)
    subgoal using f by (simp add: fixtures_def)
    subgoal using f by (simp add: team_fixtures_def)
    subgoal using f by (simp add: team_fixtures_def)
    subgoal using f by (simp add: team_fixtures_def)
    subgoal by (simp add: competitions_sends[OF fo] o q)
    subgoal by (simp add: table_sends[OF lookup_int fo] o q del: str.simps(2))
    subgoal
      by (simp add: team_fixtures_sends[OF plain_seg_int passes_None passes_None fo] o q
            del: str.simps(2))
    subgoal
      by (simp add: team_fixtures_sends[OF plain_seg_int fo passes_None passes_None] o q
            del: str.simps(2))
    subgoal
      by (simp add: team_fixtures_sends[OF plain_seg_int passes_None fo passes_None] o q
            del: str.simps(2))
    subgoal
      by (simp add: competition_fixtures_sends[OF lookup_int fo passes_None] o q
            del: str.simps(2))
    subgoal
      by (simp add: competition_fixtures_sends[OF lookup_int passes_None fo] o q
            del: str.simps(2))
    subgoal by (simp add: fixtures_sends[OF fo passes_None] o q)
    subgoal by (simp add: fixtures_sends[OF passes_None fo] o q)
    subgoal premises p
      by (simp add: table_sends[OF p fo] o q)
    subgoal premises p
      by (simp add: competition_fixtures_sends[OF p[THEN conjunct1] fo p[THEN conjunct2]] o)
    subgoal premises p
      by (simp add: competition_fixtures_sends[OF p[THEN conjunct1] p[THEN conjunct2] fo] o)
    subgoal premises p
      by (simp add: fixtures_sends[OF fo p] o)
    subgoal premises p
      by (simp add: fixtures_sends[OF p fo] o)
    subgoal premises p
      by (simp add: team_fixtures_sends[OF p[THEN conjunct1] fo
              p[THEN conjunct2, THEN conjunct1] p[THEN conjunct2, THEN conjunct2]] o)
    subgoal premises p
      by (simp add: team_fixtures_sends[OF p[THEN conjunct1]
              p[THEN conjunct2, THEN conjunct1] fo p[THEN conjunct2, THEN conjunct2]] o)
    subgoal premises p
      by (simp add: team_fixtures_sends[OF p[THEN conjunct1]
              p[THEN conjunct2, THEN conjunct1] p[THEN conjunct2, THEN conjunct2] fo] o)
    done
qed

theorem falsy_parameter_skipped_witness:
  "(PInt 0 = PNone \<or> PInt 0 = PInt 0 \<or> PInt 0 = PStr '''')
   \<and> table (Football_init (PStr ''key'')) offline (PInt 445) (PInt 0) (loaded [])
       = Some (Raised (TransportError ''offline''),
               loaded [(''http://api.football-data.org/v1/competitions/445/leagueTable'',
                        [(''X-Auth-Token'', PStr ''key'')])])
   \<and> in_keys (loaded []) (PStr ''PL'')
   \<and> fixtures (Football_init (PStr ''key'')) offline (PInt 0) (PStr ''PL'') (loaded [])
       = Some (Raised (TransportError ''offline''),
               loaded [(''http://api.football-data.org/v1/fixtures/?league=PL'',
                        [(''X-Auth-Token'', PStr ''key'')])])
   \<and> fixtures (Football_init (PStr ''key'')) offline (PInt 0) PNone (loaded [])
       = Some (Raised (TransportError ''offline''),
               loaded [(''http://api.football-data.org/v1/fixtures/'',
                        [(''X-Auth-Token'', PStr ''key'')])])
   \<and> (PStr '''' = PNone \<or> PStr '''' = PInt 0 \<or> PStr '''' = PStr '''')
   \<and> team_fixtures (Football_init (PStr ''key'')) offline (PInt 66) PNone PNone (PStr '''')
       (loaded [])
       = Some (Raised (TransportError ''offline''),
               loaded [(''http://api.football-data.org/v1/teams/66/fixtures'',
                        [(''X-Auth-Token'', PStr ''key'')])])
   \<and> lookup_competition (loaded []) (PStr ''PL'') = Inr (PInt 445)
   \<and> time_frame_prefix (str (PStr ''n7''))
   \<and> competition_fixtures (Football_init (PStr ''key'')) offline (PStr ''PL'') (PStr '''')
       (PStr ''n7'') (loaded [])
       = Some (Raised (TransportError ''offline''),
               loaded [(''http://api.football-data.org/v1/competitions/445/fixtures?timeFrame=n7'',
                        [(''X-Auth-Token'', PStr ''key'')])])"
proof -
  have h0: "PInt 0 = PNone \<or> PInt 0 = PInt 0 \<or> PInt 0 = PStr ''''" by simp
  have h1: "PStr '''' = PNone \<or> PStr '''' = PInt 0 \<or> PStr '''' = PStr ''''" by simp
  have g: "in_keys (loaded []) (PStr ''PL'')"
    "lookup_competition (loaded []) (PStr ''PL'') = Inr (PInt 445)"
    "time_frame_prefix (str (PStr ''n7''))"
    by (simp_all add: in_keys_def loaded_def LEAGUE_CODE_def lookup_competition_def
          time_frame_prefix_def one_to_nine_def)
  note t0 = falsy_parameter_skipped[OF h0, where self = "Football_init (PStr ''key'')"
            and respond = offline and w = "loaded []" and n = 445 and competition_id = PNone
            and time_frame = PNone and matchday = PNone and league_code = "PStr ''PL''"
            and team_id = PNone and venue = PNone and season = PNone and c = PNone]
  note t1 = falsy_parameter_skipped[OF h1, where self = "Football_init (PStr ''key'')"
            and respond = offline and w = "loaded []" and n = 66
            and competition_id = "PStr ''PL''" and c = "PInt 445"
            and time_frame = "PStr ''n7''" and matchday = PNone and league_code = PNone
            and team_id = PNone and venue = PNone and season = PNone]
  have c0: "table (Football_init (PStr ''key'')) offline (PInt 445) (PInt 0) (loaded [])
       = Some (get_json offline
                 (''http://api.football-data.org/v1/competitions/'' @ str (PInt 445)
                    @ ''/leagueTable'')
                 (headers (Football_init (PStr ''key''))) (loaded []))"
    "fixtures (Football_init (PStr ''key'')) offline (PInt 0) (PStr ''PL'') (loaded [])
       = Some (get_json offline
                 (''http://api.football-data.org/v1/fixtures/''
                    @ query_suffix (optional ''league'' (PStr ''PL'')))
                 (headers (Football_init (PStr ''key''))) (loaded []))"
    "fixtures (Football_init (PStr ''key'')) offline (PInt 0) PNone (loaded [])
       = Some (get_json offline ''http://api.football-data.org/v1/fixtures/''
                 (headers (Football_init (PStr ''key''))) (loaded []))"
    using t0 g by blast+
  have c1: "team_fixtures (Football_init (PStr ''key'')) offline (PInt 66) PNone PNone (PStr '''')
       (loaded [])
       = Some (get_json offline
                 (''http://api.football-data.org/v1/teams/'' @ str (PInt 66) @ ''/fixtures'')
                 (headers (Football_init (PStr ''key''))) (loaded []))"
    "competition_fixtures (Football_init (PStr ''key'')) offline (PStr ''PL'') (PStr '''')
       (PStr ''n7'') (loaded [])
       = Some (get_json offline
                 (''http://api.football-data.org/v1/competitions/'' @ str (PInt 445)
                    @ ''/fixtures'' @ query_suffix (optional ''timeFrame'' (PStr ''n7'')))
                 (headers (Football_init (PStr ''key''))) (loaded []))"
    using t1 g by blast+
  have o: "query_suffix (optional ''league'' (PStr ''PL'')) = ''?league=PL''"
    "query_suffix (optional ''timeFrame'' (PStr ''n7'')) = ''?timeFrame=n7''"
    by (simp_all add: optional_def query_suffix_def urlencode_examples)
  show ?thesis
    unfolding c0 c1 o
    using g
    by (simp add: str_5 str_66 get_json_def offline_def loaded_def Football_init_def
          del: str.simps(2))
qed

end
